theory Spec2Isabelle
  imports Complex_Main
begin

section \<open>Histogram-based outlier scores (pyod/models/hbos.py)\<close>

text \<open>
  The detector keeps one equal-width histogram per feature and scores a value by the
  base-2 logarithm of the regularised density of the bin the value falls into.
  Python exceptions are values of the type \<open>error\<close>; the attributes a fit creates are
  optional fields of the record.

  The numbers of the program are doubles. The two comparisons of \<open>dist\<close> with
  \<open>bin_width * tol\<close>, which decide what a value outside the fitted range scores, are
  modelled with the rounding of every operation (\<open>fl64\<close> below). The histogram of
  \<open>np.histogram\<close> and the logarithm are computed with real numbers: the model builds
  the histogram that exact arithmetic gives, and what is proved of a fitted model is
  proved of the arrays the model stores.

  A matrix of samples is a list of rows. The two fitted arrays \<open>hist_\<close> (shape
  \<open>n_bins \<times> n_features\<close>) and \<open>bin_edges_\<close> (shape \<open>(n_bins + 1) \<times> n_features\<close>) are
  only ever read and written one feature column at a time (\<open>a[:, i]\<close>, \<open>a[k, i]\<close>), so they
  are stored as the list of their columns: element \<open>i\<close> is the column of feature \<open>i\<close>.
  The fields \<open>hist\<close>, \<open>bin_edges\<close> and \<open>decision_scores\<close> of the record are the
  attributes \<open>hist_\<close>, \<open>bin_edges_\<close> and \<open>decision_scores_\<close> of the source.
\<close>

subsection \<open>Errors and array primitives\<close>

datatype error =
    ValueError | IndexError | AttributeError | NotFittedError | AssertionError | BaseError

text \<open>\<open>a[k]\<close> on a one-dimensional array: a negative index counts from the end.\<close>

definition py_index :: "real list \<Rightarrow> int \<Rightarrow> error + real" where
  "py_index xs k =
     (let len = int (length xs); pos = (if k < 0 then k + len else k)
      in if pos < 0 \<or> len \<le> pos then Inl IndexError else Inr (xs ! nat pos))"

text \<open>\<open>a[:, i]\<close> on a fitted array, for \<open>i\<close> taken from a \<open>range\<close>.\<close>

definition get_col :: "real list list \<Rightarrow> nat \<Rightarrow> error + real list" where
  "get_col A i = (if i < length A then Inr (A ! i) else Inl IndexError)"

text \<open>\<open>X[:, i]\<close> on a matrix of samples, and \<open>X.shape[1]\<close>.\<close>

definition column :: "real list list \<Rightarrow> nat \<Rightarrow> real list" where
  "column X i = map (\<lambda>row. row ! i) X"

definition shape1 :: "real list list \<Rightarrow> nat" where
  "shape1 X = (case X of [] \<Rightarrow> 0 | row # _ \<Rightarrow> length row)"

text \<open>
  \<open>sklearn.utils.check_array\<close> with its default arguments: the input must be a
  two-dimensional array with at least one sample and at least one feature. (Its check
  for NaN and infinite entries has nothing to reject among real numbers.)
\<close>

definition check_array :: "real list list \<Rightarrow> error + real list list" where
  "check_array X =
     (if X = [] then Inl ValueError
      else if \<not> list_all (\<lambda>row. length row = shape1 X) X then Inl ValueError
      else if shape1 X = 0 then Inl ValueError
      else Inr X)"

text \<open>\<open>np.zeros([rows, cols])\<close>, stored by columns; a negative dimension is refused.\<close>

definition np_zeros :: "int \<Rightarrow> nat \<Rightarrow> error + real list list" where
  "np_zeros rows cols =
     (if rows < 0 then Inl ValueError else Inr (replicate cols (replicate (nat rows) 0)))"

definition np_diff :: "real list \<Rightarrow> real list" where
  "np_diff xs = map (\<lambda>k. xs ! Suc k - xs ! k) [0..<length xs - 1]"

text \<open>\<open>np.min\<close> has no value on an empty array.\<close>

definition np_min :: "real list \<Rightarrow> error + real" where
  "np_min xs = (if xs = [] then Inl ValueError else Inr (Min (set xs)))"

text \<open>\<open>np.isclose(a, b, atol=atol)\<close> with the default relative tolerance.\<close>

definition np_isclose :: "real \<Rightarrow> real \<Rightarrow> real \<Rightarrow> bool" where
  "np_isclose a b atol = (\<bar>a - b\<bar> \<le> atol + 1 / 100000 * \<bar>b\<bar>)"

subsection \<open>\<open>np.histogram(a, bins=n, density=True)\<close>\<close>

text \<open>
  \<open>num\<close> evenly spaced points from \<open>start\<close> to \<open>stop\<close>, the last one set to \<open>stop\<close>
  itself.
\<close>

definition linspace :: "real \<Rightarrow> real \<Rightarrow> nat \<Rightarrow> real list" where
  "linspace start stop num =
     (let step = (stop - start) / real (num - 1)
      in (map (\<lambda>k. real k * step + start) [0..<num])[num - 1 := stop])"

text \<open>
  The range of the histogram is the range of the data; a range of width zero is
  widened by one half on each side.
\<close>

definition get_outer_edges :: "real list \<Rightarrow> real \<times> real" where
  "get_outer_edges a =
     (if a = [] then (0, 1)
      else let first_edge = Min (set a); last_edge = Max (set a)
           in if first_edge = last_edge then (first_edge - 1 / 2, last_edge + 1 / 2)
              else (first_edge, last_edge))"

text \<open>
  Bin \<open>k\<close> is half-open, \<open>[edges[k], edges[k+1])\<close>, except the last bin, which also
  contains its right edge.
\<close>

definition in_bin :: "real list \<Rightarrow> nat \<Rightarrow> real \<Rightarrow> bool" where
  "in_bin edges k v =
     (edges ! k \<le> v \<and> (v < edges ! Suc k \<or> (Suc (Suc k) = length edges \<and> v = edges ! Suc k)))"

definition bin_count :: "real list \<Rightarrow> real list \<Rightarrow> nat \<Rightarrow> nat" where
  "bin_count a edges k = length (filter (in_bin edges k) a)"

definition np_histogram :: "real list \<Rightarrow> int \<Rightarrow> error + (real list \<times> real list)" where
  "np_histogram a bins =
     (if bins < 1 then Inl ValueError
      else let n_equal_bins = nat bins;
               edges = linspace (fst (get_outer_edges a)) (snd (get_outer_edges a))
                         (n_equal_bins + 1);
               n = map (\<lambda>k. real (bin_count a edges k)) [0..<n_equal_bins];
               db = np_diff edges
           in Inr (map (\<lambda>k. n ! k / db ! k / sum_list n) [0..<n_equal_bins], edges))"

subsection \<open>\<open>np.digitize(x, bins, right=True)\<close>\<close>

text \<open>The insertion point that keeps a sorted array sorted, to the left of equal entries.\<close>

definition searchsorted_left :: "real list \<Rightarrow> real \<Rightarrow> nat" where
  "searchsorted_left bins x = length (takeWhile (\<lambda>e. e < x) bins)"

definition np_digitize :: "real list \<Rightarrow> real list \<Rightarrow> error + int list" where
  "np_digitize xs bins =
     (if sorted bins then Inr (map (\<lambda>x. int (searchsorted_left bins x)) xs)
      else if sorted (rev bins)
        then Inr (map (\<lambda>x. int (length bins) - int (searchsorted_left (rev bins) x)) xs)
      else Inl ValueError)"

subsection \<open>Double-precision rounding\<close>

text \<open>The integer nearest to a real number; of two equally near, the even one.\<close>

definition round_even :: "real \<Rightarrow> int" where
  "round_even y =
     (let f = \<lfloor>y\<rfloor>
      in if y - of_int f < 1 / 2 then f
         else if 1 / 2 < y - of_int f then f + 1
         else if even f then f else f + 1)"

text \<open>
  The result of an operation on doubles is its exact result rounded to the nearest
  double, ties to the even significand: a multiple of \<open>2 ^ (e - 52)\<close>, where \<open>2 ^ e\<close> is
  the power of two at or below the magnitude, and of \<open>2 ^ (- 1074)\<close> below the normal
  range. A result of magnitude \<open>2 ^ 1024\<close> or more stands for the infinity of that sign:
  it is larger in magnitude than every double, and the program only compares it.
\<close>

definition fl64 :: "real \<Rightarrow> real" where
  "fl64 x =
     (if x = 0 then 0
      else let e = max \<lfloor>log 2 \<bar>x\<bar>\<rfloor> (- 1022) - 52
           in of_int (round_even (x / 2 powr of_int e)) * 2 powr of_int e)"

subsection \<open>The detector\<close>

record HBOS =
  n_bins :: int
  alpha :: real
  tol :: real
  contamination :: real
  hist :: "real list list option"
  bin_edges :: "real list list option"
  decision_scores :: "real list option"

text \<open>
  Modelled from the spec: \<open>check_parameter\<close> of \<open>pyod.utils.utility\<close> is not among the
  sources. The spec gives the regularizer and the tolerance the open range (0, 1) and
  has a configuration error raised for a value outside it, so the helper is taken to
  raise exactly when the value is not strictly between \<open>low\<close> and \<open>high\<close>.
\<close>

definition check_parameter :: "real \<Rightarrow> real \<Rightarrow> real \<Rightarrow> error option" where
  "check_parameter param low high =
     (if low < param \<and> param < high then None else Some ValueError)"

text \<open>
  \<open>HBOS.__init__\<close>. The constructor of the base class is not among the sources; the
  parameter \<open>base_init\<close> says for which contamination it raises.
\<close>

definition HBOS_init :: "(real \<Rightarrow> bool) \<Rightarrow> int \<Rightarrow> real \<Rightarrow> real \<Rightarrow> real \<Rightarrow> error + HBOS" where
  "HBOS_init base_init nb a t c =
     (if base_init c then Inl BaseError
      else case check_parameter a 0 1 of
             Some e \<Rightarrow> Inl e
           | None \<Rightarrow>
              (case check_parameter t 0 1 of
                 Some e \<Rightarrow> Inl e
               | None \<Rightarrow>
                   Inr \<lparr>n_bins = nb, alpha = a, tol = t, contamination = c,
                        hist = None, bin_edges = None, decision_scores = None\<rparr>))"

subsection \<open>\<open>HBOS._calculate_outlier_scores\<close>\<close>

text \<open>
  The body of the loop over the samples: the score of one value \<open>x\<close> of feature \<open>i\<close>,
  given the feature's bin edges, its scores \<open>out_score_i\<close> and the bin index of \<open>x\<close>.
  The two differences and the product are operations on doubles.
\<close>

definition sample_score ::
  "int \<Rightarrow> real \<Rightarrow> real list \<Rightarrow> real list \<Rightarrow> real \<Rightarrow> int \<Rightarrow> error + real" where
  "sample_score nb tlr edges out_score_i x bin_ind =
     (if bin_ind = 0 then
        (case py_index edges 0 of
           Inl e \<Rightarrow> Inl e
         | Inr e0 \<Rightarrow>
            (case py_index edges 1 of
               Inl e \<Rightarrow> Inl e
             | Inr e1 \<Rightarrow>
                (let dist = fl64 (e0 - x); bin_width = fl64 (e1 - e0)
                 in if dist \<le> fl64 (bin_width * tlr) then py_index out_score_i 0
                    else np_min out_score_i)))
      else if bin_ind = nb + 1 then
        (case py_index edges (- 1) of
           Inl e \<Rightarrow> Inl e
         | Inr el \<Rightarrow>
            (case py_index edges (- 2) of
               Inl e \<Rightarrow> Inl e
             | Inr ep \<Rightarrow>
                (let dist = fl64 (x - el); bin_width = fl64 (el - ep)
                 in if dist \<le> fl64 (bin_width * tlr) then py_index out_score_i (nb - 1)
                    else np_min out_score_i)))
      else py_index out_score_i (bin_ind - 1))"

text \<open>The loop over the samples \<open>j\<close>; the first error ends it.\<close>

fun score_samples ::
  "int \<Rightarrow> real \<Rightarrow> real list \<Rightarrow> real list \<Rightarrow> (real \<times> int) list \<Rightarrow> error + real list" where
  "score_samples nb tlr edges out_score_i [] = Inr []"
| "score_samples nb tlr edges out_score_i (xb # rest) =
     (case sample_score nb tlr edges out_score_i (fst xb) (snd xb) of
        Inl e \<Rightarrow> Inl e
      | Inr s \<Rightarrow>
         (case score_samples nb tlr edges out_score_i rest of
            Inl e \<Rightarrow> Inl e
          | Inr ss \<Rightarrow> Inr (s # ss)))"

text \<open>One round of the loop over the features: column \<open>i\<close> of the scores.\<close>

definition score_feature :: "HBOS \<Rightarrow> real list list \<Rightarrow> nat \<Rightarrow> error + real list" where
  "score_feature m X i =
     (case bin_edges m of
        None \<Rightarrow> Inl AttributeError
      | Some B \<Rightarrow>
         (case get_col B i of
            Inl e \<Rightarrow> Inl e
          | Inr edges \<Rightarrow>
             (case np_digitize (column X i) edges of
                Inl e \<Rightarrow> Inl e
              | Inr bin_inds \<Rightarrow>
                 (case hist m of
                    None \<Rightarrow> Inl AttributeError
                  | Some H \<Rightarrow>
                     (case get_col H i of
                        Inl e \<Rightarrow> Inl e
                      | Inr dens \<Rightarrow>
                          score_samples (n_bins m) (tol m) edges
                            (map (\<lambda>d. log 2 (d + alpha m)) dens)
                            (zip (column X i) bin_inds))))))"

fun score_features :: "HBOS \<Rightarrow> real list list \<Rightarrow> nat list \<Rightarrow> error + real list list" where
  "score_features m X [] = Inr []"
| "score_features m X (i # rest) =
     (case score_feature m X i of
        Inl e \<Rightarrow> Inl e
      | Inr col \<Rightarrow>
         (case score_features m X rest of
            Inl e \<Rightarrow> Inl e
          | Inr cols \<Rightarrow> Inr (col # cols)))"

text \<open>The result has one row per sample and one entry per feature of \<open>X\<close>.\<close>

definition calculate_outlier_scores :: "HBOS \<Rightarrow> real list list \<Rightarrow> error + real list list" where
  "calculate_outlier_scores m X =
     (case score_features m X [0..<shape1 X] of
        Inl e \<Rightarrow> Inl e
      | Inr cols \<Rightarrow> Inr (map (\<lambda>j. map (\<lambda>col. col ! j) cols) [0..<length X]))"

subsection \<open>\<open>HBOS.decision_function\<close>\<close>

text \<open>
  \<open>check_is_fitted\<close> asks for both attributes. The method assigns nothing to the
  model, so it is a function of the model and the query.
\<close>

definition decision_function :: "HBOS \<Rightarrow> real list list \<Rightarrow> error + real list" where
  "decision_function m X0 =
     (if hist m = None \<or> bin_edges m = None then Inl NotFittedError
      else case check_array X0 of
             Inl e \<Rightarrow> Inl e
           | Inr X \<Rightarrow>
              (case calculate_outlier_scores m X of
                 Inl e \<Rightarrow> Inl e
               | Inr outlier_scores \<Rightarrow> Inr (map (\<lambda>row. sum_list row * - 1) outlier_scores)))"

subsection \<open>\<open>HBOS.fit\<close>\<close>

text \<open>
  The loop that builds the histograms works on the two arrays already stored in the
  model; it returns them as they are when it ends, normally or by an error. A round
  computes the histogram first and assigns the two columns only then.
\<close>

fun fit_loop ::
  "int \<Rightarrow> real list list \<Rightarrow> real list list \<Rightarrow> real list list \<Rightarrow> nat list
     \<Rightarrow> error option \<times> real list list \<times> real list list" where
  "fit_loop nb X H B [] = (None, H, B)"
| "fit_loop nb X H B (i # rest) =
     (case np_histogram (column X i) nb of
        Inl e \<Rightarrow> (Some e, H, B)
      | Inr hb \<Rightarrow>
         (let H' = H[i := fst hb]; B' = B[i := snd hb]
          in if np_isclose 1 (sum_list (map2 (*) (H' ! i) (np_diff (B' ! i)))) (1 / 10)
             then fit_loop nb X H' B' rest
             else (Some AssertionError, H', B')))"

text \<open>
  \<open>fit\<close> with \<open>y = None\<close>. The result is the error raised, if any, and the model as
  the call leaves it. The base class's \<open>_process_decision_scores\<close> is not among the
  sources; the parameter \<open>pds\<close> says for which decision scores it raises. (It and
  \<open>_set_n_classes\<close> assign attributes of the base class only, which the record does
  not carry.)
\<close>

definition fit :: "(real list \<Rightarrow> bool) \<Rightarrow> HBOS \<Rightarrow> real list list \<Rightarrow> error option \<times> HBOS" where
  "fit pds m X0 =
     (case check_array X0 of
        Inl e \<Rightarrow> (Some e, m)
      | Inr X \<Rightarrow>
         (case np_zeros (n_bins m) (shape1 X) of
            Inl e \<Rightarrow> (Some e, m)
          | Inr H0 \<Rightarrow>
             (case np_zeros (n_bins m + 1) (shape1 X) of
                Inl e \<Rightarrow> (Some e, m\<lparr>hist := Some H0\<rparr>)
              | Inr B0 \<Rightarrow>
                 (case fit_loop (n_bins m) X H0 B0 [0..<shape1 X] of
                    (Some e, H, B) \<Rightarrow> (Some e, m\<lparr>hist := Some H, bin_edges := Some B\<rparr>)
                  | (None, H, B) \<Rightarrow>
                     (case calculate_outlier_scores
                             (m\<lparr>hist := Some H, bin_edges := Some B\<rparr>) X of
                        Inl e \<Rightarrow> (Some e, m\<lparr>hist := Some H, bin_edges := Some B\<rparr>)
                      | Inr outlier_scores \<Rightarrow>
                         (let scores = map (\<lambda>row. sum_list row * - 1) outlier_scores;
                              m' = m\<lparr>hist := Some H, bin_edges := Some B,
                                     decision_scores := Some scores\<rparr>
                          in if pds scores then (Some BaseError, m') else (None, m')))))))"

subsection \<open>Notions used in the proofs\<close>

text \<open>
  The score that the loop body gives to the value \<open>x\<close> when it succeeds, with the bin
  index that \<open>np.digitize\<close> finds on increasing edges.
\<close>

definition value_score :: "HBOS \<Rightarrow> real list \<Rightarrow> real list \<Rightarrow> real \<Rightarrow> real" where
  "value_score m edges dens x =
     (case sample_score (n_bins m) (tol m) edges (map (\<lambda>d. log 2 (d + alpha m)) dens) x
             (int (searchsorted_left edges x)) of
        Inl e \<Rightarrow> 0
      | Inr s \<Rightarrow> s)"

text \<open>The shape of one feature's histogram after a fit with \<open>n_bins m\<close> bins.\<close>

definition fitted_feature :: "HBOS \<Rightarrow> real list \<Rightarrow> real list \<Rightarrow> bool" where
  "fitted_feature m edges dens =
     (1 \<le> n_bins m \<and> length dens = nat (n_bins m) \<and> length edges = Suc (nat (n_bins m))
      \<and> sorted_wrt (<) edges)"

text \<open>
  The fitted arrays \<open>H\<close> and \<open>B\<close> of a model hold a well-shaped histogram for each of
  the first \<open>nf\<close> features.
\<close>

definition fitted_arrays :: "HBOS \<Rightarrow> real list list \<Rightarrow> real list list \<Rightarrow> nat \<Rightarrow> bool" where
  "fitted_arrays m H B nf =
     (hist m = Some H \<and> bin_edges m = Some B \<and> length H = nf \<and> length B = nf
      \<and> list_all (\<lambda>i. fitted_feature m (B ! i) (H ! i)) [0..<nf])"

subsection \<open>A worked example\<close>

text \<open>
  One feature, three bins, six training values: three at each end of the range, so that
  the middle bin is empty and has the least density. With \<open>alpha = 1/2\<close> the three
  bins score \<open>3\<close>, \<open>-1\<close> and \<open>3\<close>. The query \<open>ex_Q\<close> has a value in every
  position a value can take against these bins.
\<close>

definition ex_model :: HBOS where
  "ex_model = \<lparr>n_bins = 3, alpha = 1 / 2, tol = 1 / 2, contamination = 1 / 10,
                hist = None, bin_edges = None, decision_scores = None\<rparr>"

definition ex_X :: "real list list" where
  "ex_X = [[0], [0], [0], [1 / 5], [1 / 5], [1 / 5]]"

definition ex_fitted :: HBOS where
  "ex_fitted = ex_model\<lparr>hist := Some [[15 / 2, 0, 15 / 2]],
                         bin_edges := Some [[0, 1 / 15, 2 / 15, 1 / 5]],
                         decision_scores := Some [- 3, - 3, - 3, - 3, - 3, - 3]\<rparr>"

definition ex_Q :: "real list list" where
  "ex_Q = [[- 1 / 30], [1 / 30], [- 1], [7 / 30], [2], [1 / 10], [1 / 15], [0]]"

definition ex_H :: "real list list" where
  "ex_H = [[15 / 2, 0, 15 / 2]]"

definition ex_B :: "real list list" where
  "ex_B = [[0, 1 / 15, 2 / 15, 1 / 5]]"

definition ex_S :: "real list list" where
  "ex_S = [[3], [3], [- 1], [3], [- 1], [- 1], [3], [3]]"


text \<open>A model built with no bins at all, and what a failed fit leaves of it.\<close>

definition zero_model :: HBOS where
  "zero_model = \<lparr>n_bins = 0, alpha = 1 / 2, tol = 1 / 2, contamination = 1 / 10,
                  hist = None, bin_edges = None, decision_scores = None\<rparr>"

definition zero_failed :: HBOS where
  "zero_failed = zero_model\<lparr>hist := Some [[]], bin_edges := Some [[0]]\<rparr>"

text \<open>
  Two features fitted with a single bin each, and the worked example's fitted model with
  its number of bins set to zero before it is fitted again.
\<close>

definition two_model :: HBOS where
  "two_model = \<lparr>n_bins = 1, alpha = 1 / 2, tol = 1 / 2, contamination = 1 / 10,
                 hist = None, bin_edges = None, decision_scores = None\<rparr>"

definition two_X :: "real list list" where
  "two_X = [[0, 0], [2 / 3, 2]]"

definition two_fitted :: HBOS where
  "two_fitted = two_model\<lparr>hist := Some [[3 / 2], [1 / 2]],
                           bin_edges := Some [[0, 2 / 3], [0, 2]],
                           decision_scores := Some [- 1, - 1]\<rparr>"

definition refit_model :: HBOS where
  "refit_model = ex_fitted\<lparr>n_bins := 0\<rparr>"

definition refit_failed :: HBOS where
  "refit_failed = refit_model\<lparr>hist := Some [[]], bin_edges := Some [[0]]\<rparr>"

text \<open>
  A model whose tolerance test is decided by a rounding: one feature with the training
  values 0 and 9, three bins, and \<open>alpha\<close> and \<open>tol\<close> the double nearest to one tenth. The
  first query value is the double just above three tenths, taken negative.
\<close>

definition r3_model :: HBOS where
  "r3_model = \<lparr>n_bins = 3, alpha = 3602879701896397 / 36028797018963968,
                tol = 3602879701896397 / 36028797018963968, contamination = 1 / 10,
                hist = None, bin_edges = None, decision_scores = None\<rparr>"

definition r3_X :: "real list list" where
  "r3_X = [[0], [9]]"

definition r3_H :: "real list list" where
  "r3_H = [[1 / 6, 0, 1 / 6]]"

definition r3_B :: "real list list" where
  "r3_B = [[0, 3, 6, 9]]"

definition r3_fitted :: HBOS where
  "r3_fitted = r3_model\<lparr>hist := Some r3_H, bin_edges := Some r3_B,
      decision_scores := Some [- log 2 (1 / 6 + 3602879701896397 / 36028797018963968),
                               - log 2 (1 / 6 + 3602879701896397 / 36028797018963968)]\<rparr>"

definition r3_Q :: "real list list" where
  "r3_Q = [[- (1351079888211149 / 4503599627370496)], [- 1], [3 / 2], [37 / 4], [10]]"

definition r3_S :: "real list list" where
  "r3_S = [[log 2 (1 / 6 + 3602879701896397 / 36028797018963968)],
           [log 2 (0 + 3602879701896397 / 36028797018963968)],
           [log 2 (1 / 6 + 3602879701896397 / 36028797018963968)],
           [log 2 (1 / 6 + 3602879701896397 / 36028797018963968)],
           [log 2 (0 + 3602879701896397 / 36028797018963968)]]"

subsection \<open>Facts about rounding\<close>

lemma fl64_zero: "fl64 0 = 0"
  by (simp add: fl64_def)

lemma round_even_nonneg: "0 \<le> y \<Longrightarrow> 0 \<le> round_even y"
  by (auto simp: round_even_def Let_def)

lemma fl64_nonneg: "0 \<le> x \<Longrightarrow> 0 \<le> fl64 x"
  by (auto simp: fl64_def Let_def intro!: mult_nonneg_nonneg round_even_nonneg)

text \<open>The value of \<open>fl64\<close> at a number whose binade is known.\<close>

lemma fl64_grid:
  fixes e :: int
  assumes "2 powr of_int e \<le> \<bar>x\<bar>" "\<bar>x\<bar> < 2 powr of_int (e + 1)" "- 1022 \<le> e"
    and "u = 2 powr of_int (e - 52)"
  shows "fl64 x = of_int (round_even (x / u)) * u"
proof -
  have pos: "0 < \<bar>x\<bar>" using assms(1) by (smt (verit) powr_gt_zero)
  have "of_int e \<le> log 2 \<bar>x\<bar>" using assms(1) pos by (simp add: le_log_iff)
  moreover have "log 2 \<bar>x\<bar> < of_int (e + 1)" using assms(2) pos by (simp add: log_less_iff)
  ultimately have "\<lfloor>log 2 \<bar>x\<bar>\<rfloor> = e" by (intro floor_unique) simp_all
  then show ?thesis using pos assms(3,4) by (simp add: fl64_def Let_def max_def)
qed

subsection \<open>Facts about the bin edges\<close>

lemma length_linspace: "length (linspace lo hi num) = num"
  by (simp add: linspace_def Let_def)

lemma linspace_nth:
  assumes "0 < n" "k \<le> n"
  shows "linspace lo hi (Suc n) ! k = lo + real k * ((hi - lo) / real n)"
proof (cases "k = n")
  case True
  have "real n * ((hi - lo) / real n) = hi - lo" using assms by simp
  then show ?thesis using True by (simp add: linspace_def Let_def)
next
  case False
  then have "k < n" using assms by simp
  then show ?thesis by (simp add: linspace_def Let_def nth_list_update del: upt_Suc)
qed

lemma linspace_first: "0 < n \<Longrightarrow> linspace lo hi (Suc n) ! 0 = lo"
  by (simp add: linspace_nth)

lemma linspace_last: "0 < n \<Longrightarrow> linspace lo hi (Suc n) ! n = hi"
  by (simp add: linspace_nth)

lemma linspace_step:
  assumes "0 < n" "k < n"
  shows "linspace lo hi (Suc n) ! Suc k - linspace lo hi (Suc n) ! k = (hi - lo) / real n"
  using assms by (simp add: linspace_nth field_simps)

lemma linspace_strict:
  assumes "0 < n" "lo < hi"
  shows "sorted_wrt (<) (linspace lo hi (Suc n))"
proof -
  have pos: "0 < (hi - lo) / real n" using assms by simp
  have "linspace lo hi (Suc n) ! i < linspace lo hi (Suc n) ! j" if "i < j" "j < Suc n" for i j
  proof -
    have "real i < real j" using that by simp
    then have "real i * ((hi - lo) / real n) < real j * ((hi - lo) / real n)"
      using pos by (rule mult_strict_right_mono)
    then show ?thesis using that assms by (simp add: linspace_nth)
  qed
  then show ?thesis by (simp add: sorted_wrt_iff_nth_less length_linspace)
qed

lemma outer_edges_lt: "fst (get_outer_edges a) < snd (get_outer_edges a)"
proof (cases "a = []")
  case True
  then show ?thesis by (simp add: get_outer_edges_def)
next
  case False
  then have "Min (set a) \<le> Max (set a)" by simp
  then have "Min (set a) \<noteq> Max (set a) \<Longrightarrow> Min (set a) < Max (set a)" by simp
  then show ?thesis using False by (auto simp: get_outer_edges_def Let_def)
qed

lemma outer_edges_bounds:
  assumes "v \<in> set a"
  shows "fst (get_outer_edges a) \<le> v \<and> v \<le> snd (get_outer_edges a)"
proof -
  have ne: "a \<noteq> []" using assms by auto
  have "Min (set a) \<le> v" "v \<le> Max (set a)" using assms by simp_all
  then show ?thesis using ne by (auto simp: get_outer_edges_def Let_def)
qed

lemma bin_exists:
  fixes f :: "nat \<Rightarrow> real"
  shows "0 < n \<Longrightarrow> f 0 \<le> v \<Longrightarrow> v \<le> f n \<Longrightarrow>
    \<exists>k<n. f k \<le> v \<and> (v < f (Suc k) \<or> (Suc k = n \<and> v = f n))"
proof (induction n)
  case 0
  then show ?case by simp
next
  case (Suc n)
  show ?case
  proof (cases "f n \<le> v")
    case True
    then show ?thesis using Suc.prems by (intro exI[of _ n]) auto
  next
    case False
    then have lt: "v < f n" by simp
    then have "0 < n" using Suc.prems by (cases n) auto
    with Suc.IH Suc.prems lt obtain k where "k < n" "f k \<le> v" "v < f (Suc k) \<or> (Suc k = n \<and> v = f n)"
      by auto
    then show ?thesis using lt by (intro exI[of _ k]) auto
  qed
qed

lemma in_bin_exists:
  assumes "0 < n" "length edges = Suc n" "edges ! 0 \<le> v" "v \<le> edges ! n"
  shows "\<exists>k<n. in_bin edges k v"
proof -
  from bin_exists[of n "\<lambda>k. edges ! k" v] assms
  obtain k where "k < n" "edges ! k \<le> v" "v < edges ! Suc k \<or> (Suc k = n \<and> v = edges ! n)"
    by auto
  then show ?thesis using assms by (intro exI[of _ k]) (auto simp: in_bin_def)
qed

subsection \<open>Facts about the histogram\<close>

lemma np_histogram_edges:
  assumes "np_histogram a nb = Inr (h, b)"
  shows "1 \<le> nb \<and> b = linspace (fst (get_outer_edges a)) (snd (get_outer_edges a)) (Suc (nat nb))"
proof -
  have nb: "\<not> nb < 1" using assms by (simp add: np_histogram_def split: if_splits)
  then show ?thesis using assms by (simp add: np_histogram_def Let_def)
qed

lemma np_histogram_length:
  assumes "np_histogram a nb = Inr (h, b)"
  shows "length h = nat nb" "length b = Suc (nat nb)"
proof -
  have nb: "\<not> nb < 1" using assms by (simp add: np_histogram_def split: if_splits)
  then have "length h = nat nb \<and> length b = Suc (nat nb)"
    using assms unfolding np_histogram_def Let_def by (auto simp: length_linspace)
  then show "length h = nat nb" "length b = Suc (nat nb)" by simp_all
qed

lemma np_histogram_nth:
  assumes "np_histogram a nb = Inr (h, b)" "k < nat nb"
  shows "h ! k = real (bin_count a b k) / (b ! Suc k - b ! k)
                     / (\<Sum>k<nat nb. real (bin_count a b k))"
proof -
  let ?N = "nat nb"
  let ?c = "\<lambda>k. real (bin_count a b k)"
  have nb: "\<not> nb < 1" using assms by (simp add: np_histogram_def split: if_splits)
  have tot: "sum_list (map ?c [0..<?N]) = (\<Sum>k<?N. ?c k)"
    by (simp add: interv_sum_list_conv_sum_set_nat atLeast0LessThan)
  have d: "np_diff b ! k = b ! Suc k - b ! k"
    using assms(2) np_histogram_length(2)[OF assms(1)] by (simp add: np_diff_def)
  have "h = map (\<lambda>k. map ?c [0..<?N] ! k / np_diff b ! k / sum_list (map ?c [0..<?N])) [0..<?N]"
    using assms(1) nb unfolding np_histogram_def Let_def by auto
  then have "h ! k = map ?c [0..<?N] ! k / np_diff b ! k / sum_list (map ?c [0..<?N])"
    using assms(2) by simp
  then show ?thesis using assms(2) by (simp add: tot d)
qed


lemma np_histogram_strict:
  assumes "np_histogram a nb = Inr (h, b)"
  shows "sorted_wrt (<) b"
proof -
  have n: "0 < nat nb" using np_histogram_edges[OF assms] by simp
  have "sorted_wrt (<)
          (linspace (fst (get_outer_edges a)) (snd (get_outer_edges a)) (Suc (nat nb)))"
    using n outer_edges_lt by (rule linspace_strict)
  then show ?thesis using np_histogram_edges[OF assms] by simp
qed

lemma np_histogram_width:
  assumes "np_histogram a nb = Inr (h, b)" "k < nat nb"
  shows "b ! k < b ! Suc k"
  using np_histogram_strict[OF assms(1)] np_histogram_length(2)[OF assms(1)] assms(2)
  by (simp add: sorted_wrt_iff_nth_less)

lemma np_histogram_total:
  assumes "np_histogram a nb = Inr (h, b)" "a \<noteq> []"
  shows "0 < (\<Sum>k<nat nb. real (bin_count a b k))"
proof -
  obtain v where v: "v \<in> set a" using assms(2) by (cases a) auto
  have n: "0 < nat nb" using np_histogram_edges[OF assms(1)] by simp
  have b: "b = linspace (fst (get_outer_edges a)) (snd (get_outer_edges a)) (Suc (nat nb))"
    using np_histogram_edges[OF assms(1)] by simp
  have "b ! 0 = fst (get_outer_edges a)" "b ! nat nb = snd (get_outer_edges a)"
    unfolding b using n by (rule linspace_first, rule linspace_last)
  then have "b ! 0 \<le> v" "v \<le> b ! nat nb"
    using outer_edges_bounds[OF v] by simp_all
  with in_bin_exists[OF n np_histogram_length(2)[OF assms(1)]]
  obtain k where k: "k < nat nb" "in_bin b k v" by blast
  have "filter (in_bin b k) a \<noteq> []" using v k(2) by (auto simp: filter_empty_conv)
  then have "0 < real (bin_count a b k)" by (simp add: bin_count_def)
  moreover have "real (bin_count a b k) \<le> (\<Sum>k<nat nb. real (bin_count a b k))"
    using k(1) by (intro member_le_sum) auto
  ultimately show ?thesis by linarith
qed

lemma np_histogram_nonneg:
  assumes "np_histogram a nb = Inr (h, b)" "d \<in> set h"
  shows "0 \<le> d"
proof -
  have tot: "0 \<le> (\<Sum>k<nat nb. real (bin_count a b k))" by (simp add: sum_nonneg)
  from assms(2) obtain k where k: "k < length h" "d = h ! k" by (auto simp: in_set_conv_nth)
  then have kn: "k < nat nb" using np_histogram_length(1)[OF assms(1)] by simp
  have "0 < b ! Suc k - b ! k" using np_histogram_width[OF assms(1) kn] by simp
  then show ?thesis using tot by (simp add: k(2) np_histogram_nth[OF assms(1) kn])
qed

lemma np_histogram_mass:
  assumes "np_histogram a nb = Inr (h, b)" "a \<noteq> []"
  shows "sum_list (map2 (*) h (np_diff b)) = 1"
proof -
  let ?c = "\<lambda>k. real (bin_count a b k)"
  let ?tot = "\<Sum>k<nat nb. ?c k"
  have tot: "0 < ?tot" by (rule np_histogram_total[OF assms])
  have lh: "length h = nat nb" by (rule np_histogram_length(1)[OF assms(1)])
  have lb: "length b = Suc (nat nb)" by (rule np_histogram_length(2)[OF assms(1)])
  have "map2 (*) h (np_diff b) = map (\<lambda>k. ?c k / ?tot) [0..<nat nb]"
  proof (rule nth_equalityI)
    show "length (map2 (*) h (np_diff b)) = length (map (\<lambda>k. ?c k / ?tot) [0..<nat nb])"
      by (simp add: lh lb np_diff_def)
  next
    fix k assume "k < length (map2 (*) h (np_diff b))"
    then have k: "k < nat nb" by (simp add: lh lb np_diff_def)
    have w: "b ! k < b ! Suc k" by (rule np_histogram_width[OF assms(1) k])
    have "map2 (*) h (np_diff b) ! k = h ! k * (b ! Suc k - b ! k)"
      using k by (simp add: lh lb np_diff_def)
    also have "\<dots> = ?c k / ?tot" using w by (simp add: np_histogram_nth[OF assms(1) k])
    finally show "map2 (*) h (np_diff b) ! k = map (\<lambda>k. ?c k / ?tot) [0..<nat nb] ! k"
      using k by simp
  qed
  then have "sum_list (map2 (*) h (np_diff b)) = (\<Sum>k<nat nb. ?c k / ?tot)"
    by (simp add: interv_sum_list_conv_sum_set_nat atLeast0LessThan)
  also have "\<dots> = ?tot / ?tot" by (rule sum_divide_distrib[symmetric])
  also have "\<dots> = 1" using tot by simp
  finally show ?thesis .
qed

lemma np_histogram_ok:
  assumes "1 \<le> nb"
  shows "\<exists>h b. np_histogram a nb = Inr (h, b)"
  using assms by (simp add: np_histogram_def Let_def)

lemma np_histogram_fail: "nb < 1 \<Longrightarrow> np_histogram a nb = Inl ValueError"
  by (simp add: np_histogram_def)

subsection \<open>Scoring against one fitted feature\<close>

lemma searchsorted_left_eq:
  assumes "k \<le> length es" "\<And>j. j < k \<Longrightarrow> es ! j < x" "k < length es \<Longrightarrow> x \<le> es ! k"
  shows "searchsorted_left es x = k"
proof -
  have "takeWhile (\<lambda>e. e < x) es = take k es"
    using assms by (intro takeWhile_eq_take_P_nth) auto
  then show ?thesis using assms(1) by (simp add: searchsorted_left_def)
qed

lemma digitize_below:
  assumes "es \<noteq> []" "x \<le> es ! 0"
  shows "searchsorted_left es x = 0"
  using assms by (intro searchsorted_left_eq) auto

lemma digitize_inside:
  assumes "sorted_wrt (<) es" "Suc b < length es" "es ! b < x" "x \<le> es ! Suc b"
  shows "searchsorted_left es x = Suc b"
proof (rule searchsorted_left_eq)
  show "Suc b \<le> length es" using assms(2) by simp
  show "es ! j < x" if "j < Suc b" for j
  proof (cases "j = b")
    case True
    then show ?thesis using assms(3) by simp
  next
    case False
    then have "es ! j < es ! b" using that assms(1,2) by (simp add: sorted_wrt_iff_nth_less)
    then show ?thesis using assms(3) by simp
  qed
  show "x \<le> es ! Suc b" by (rule assms(4))
qed

lemma digitize_above:
  assumes "sorted_wrt (<) es" "length es = Suc n" "es ! n < x"
  shows "searchsorted_left es x = Suc n"
proof (rule searchsorted_left_eq)
  show "Suc n \<le> length es" using assms(2) by simp
  show "es ! j < x" if "j < Suc n" for j
  proof (cases "j = n")
    case True
    then show ?thesis using assms(3) by simp
  next
    case False
    then have "es ! j < es ! n" using that assms(1,2) by (simp add: sorted_wrt_iff_nth_less)
    then show ?thesis using assms(3) by simp
  qed
  show "x \<le> es ! Suc n" if "Suc n < length es" using that assms(2) by simp
qed

text \<open>Every value lies below the range, in exactly one bin, or above the range.\<close>

lemma value_position:
  fixes f :: "nat \<Rightarrow> real"
  shows "x \<le> f 0 \<or> (\<exists>b<n. f b < x \<and> x \<le> f (Suc b)) \<or> f n < x"
proof (induction n)
  case 0
  then show ?case by auto
next
  case (Suc n)
  then show ?case by (metis less_Suc_eq not_le_imp_less)
qed

lemma sample_score_below:
  assumes "fitted_feature m es ds" "x \<le> es ! 0"
  shows "sample_score (n_bins m) (tol m) es (map (\<lambda>d. log 2 (d + alpha m)) ds) x
           (int (searchsorted_left es x))
         = Inr (if fl64 (es ! 0 - x) \<le> fl64 (fl64 (es ! 1 - es ! 0) * tol m)
                then log 2 (ds ! 0 + alpha m)
                else Min ((\<lambda>d. log 2 (d + alpha m)) ` set ds))"
proof -
  have ne: "es \<noteq> []" "ds \<noteq> []" using assms(1) by (auto simp: fitted_feature_def)
  have len: "2 \<le> length es" "1 \<le> length ds" using assms(1) by (auto simp: fitted_feature_def)
  have "searchsorted_left es x = 0" using ne(1) assms(2) by (rule digitize_below)
  then show ?thesis
    using len ne by (simp add: sample_score_def py_index_def np_min_def Let_def)
qed

lemma sample_score_above:
  assumes "fitted_feature m es ds" "es ! nat (n_bins m) < x"
  shows "sample_score (n_bins m) (tol m) es (map (\<lambda>d. log 2 (d + alpha m)) ds) x
           (int (searchsorted_left es x))
         = Inr (if fl64 (x - es ! nat (n_bins m))
                     \<le> fl64 (fl64 (es ! nat (n_bins m) - es ! (nat (n_bins m) - 1)) * tol m)
                then log 2 (ds ! (nat (n_bins m) - 1) + alpha m)
                else Min ((\<lambda>d. log 2 (d + alpha m)) ` set ds))"
proof -
  let ?n = "nat (n_bins m)"
  have nb: "1 \<le> n_bins m" "length ds = ?n" "length es = Suc ?n" "sorted_wrt (<) es"
    using assms(1) by (auto simp: fitted_feature_def)
  have ne: "ds \<noteq> []" using nb by auto
  have dig: "searchsorted_left es x = Suc ?n" using nb(4,3) assms(2) by (rule digitize_above)
  have i1: "py_index es (- 1) = Inr (es ! ?n)"
    using nb by (simp add: py_index_def Let_def)
  have "nat (int ?n - 1) = ?n - 1" by arith
  then have i2: "py_index es (- 2) = Inr (es ! (?n - 1))"
    using nb by (simp add: py_index_def Let_def)
  have "nat (n_bins m - 1) = ?n - 1" by arith
  then have i3: "py_index (map (\<lambda>d. log 2 (d + alpha m)) ds) (n_bins m - 1)
                  = Inr (log 2 (ds ! (?n - 1) + alpha m))"
    using nb by (simp add: py_index_def Let_def)
  have neq: "int (Suc ?n) \<noteq> 0" "int (Suc ?n) = n_bins m + 1" using nb by simp_all
  have "sample_score (n_bins m) (tol m) es (map (\<lambda>d. log 2 (d + alpha m)) ds) x (n_bins m + 1)
          = Inr (if fl64 (x - es ! ?n) \<le> fl64 (fl64 (es ! ?n - es ! (?n - 1)) * tol m)
                 then log 2 (ds ! (?n - 1) + alpha m)
                 else Min ((\<lambda>d. log 2 (d + alpha m)) ` set ds))"
    unfolding sample_score_def i1 i2 i3 using nb(1) ne
    by (simp add: np_min_def Let_def)
  then show ?thesis unfolding dig neq(2) .
qed

lemma sample_score_inside:
  assumes "fitted_feature m es ds" "b < nat (n_bins m)" "es ! b < x" "x \<le> es ! Suc b"
  shows "sample_score (n_bins m) (tol m) es (map (\<lambda>d. log 2 (d + alpha m)) ds) x
           (int (searchsorted_left es x))
         = Inr (log 2 (ds ! b + alpha m))"
proof -
  let ?n = "nat (n_bins m)"
  have nb: "1 \<le> n_bins m" "length ds = ?n" "length es = Suc ?n" "sorted_wrt (<) es"
    using assms(1) by (auto simp: fitted_feature_def)
  have dig: "searchsorted_left es x = Suc b"
    using nb(4) _ assms(3,4) by (rule digitize_inside) (use nb assms(2) in simp)
  have neq: "int (Suc b) \<noteq> 0" "int (Suc b) \<noteq> n_bins m + 1" using nb assms(2) by auto
  have "py_index (map (\<lambda>d. log 2 (d + alpha m)) ds) (int (Suc b) - 1)
          = Inr (log 2 (ds ! b + alpha m))"
    using nb assms(2) by (simp add: py_index_def Let_def)
  then show ?thesis unfolding dig sample_score_def using neq by simp
qed

lemma sample_score_total:
  assumes "fitted_feature m es ds"
  shows "sample_score (n_bins m) (tol m) es (map (\<lambda>d. log 2 (d + alpha m)) ds) x
           (int (searchsorted_left es x)) = Inr (value_score m es ds x)"
proof -
  from value_position[of x "\<lambda>k. es ! k" "nat (n_bins m)"]
  consider "x \<le> es ! 0" | b where "b < nat (n_bins m)" "es ! b < x" "x \<le> es ! Suc b"
    | "es ! nat (n_bins m) < x" by blast
  then show ?thesis
  proof cases
    case 1
    then show ?thesis using sample_score_below[OF assms] by (simp add: value_score_def)
  next
    case 2
    then show ?thesis using sample_score_inside[OF assms] by (simp add: value_score_def)
  next
    case 3
    then show ?thesis using sample_score_above[OF assms] by (simp add: value_score_def)
  qed
qed

lemma value_score_below:
  assumes "fitted_feature m es ds" "x \<le> es ! 0"
  shows "value_score m es ds x
         = (if fl64 (es ! 0 - x) \<le> fl64 (fl64 (es ! 1 - es ! 0) * tol m)
            then log 2 (ds ! 0 + alpha m)
            else Min ((\<lambda>d. log 2 (d + alpha m)) ` set ds))"
  using sample_score_below[OF assms] by (simp add: value_score_def)

lemma value_score_above:
  assumes "fitted_feature m es ds" "es ! nat (n_bins m) < x"
  shows "value_score m es ds x
         = (if fl64 (x - es ! nat (n_bins m))
                     \<le> fl64 (fl64 (es ! nat (n_bins m) - es ! (nat (n_bins m) - 1)) * tol m)
                then log 2 (ds ! (nat (n_bins m) - 1) + alpha m)
                else Min ((\<lambda>d. log 2 (d + alpha m)) ` set ds))"
  using sample_score_above[OF assms] by (simp add: value_score_def)

lemma value_score_inside:
  assumes "fitted_feature m es ds" "b < nat (n_bins m)" "es ! b < x" "x \<le> es ! Suc b"
  shows "value_score m es ds x = log 2 (ds ! b + alpha m)"
  using sample_score_inside[OF assms] by (simp add: value_score_def)

subsection \<open>Scoring a matrix against fitted histograms\<close>

lemma fitted_arraysD:
  assumes "fitted_arrays m H B nf"
  shows "hist m = Some H" "bin_edges m = Some B" "length H = nf" "length B = nf"
    "\<And>i. i < nf \<Longrightarrow> fitted_feature m (B ! i) (H ! i)"
  using assms by (auto simp: fitted_arrays_def list_all_iff)

lemma score_samples_fitted:
  assumes "fitted_feature m es ds"
  shows "score_samples (n_bins m) (tol m) es (map (\<lambda>d. log 2 (d + alpha m)) ds)
           (zip xs (map (\<lambda>x. int (searchsorted_left es x)) xs))
         = Inr (map (value_score m es ds) xs)"
  by (induction xs) (simp_all add: sample_score_total[OF assms])

lemma score_feature_fitted:
  assumes "fitted_arrays m H B nf" "i < nf"
  shows "score_feature m X i = Inr (map (value_score m (B ! i) (H ! i)) (column X i))"
proof -
  note fa = fitted_arraysD[OF assms(1)]
  have ff: "fitted_feature m (B ! i) (H ! i)" using fa(5) assms(2) by simp
  then have "sorted (B ! i)" by (simp add: fitted_feature_def strict_sorted_iff)
  then have dig: "np_digitize (column X i) (B ! i)
                   = Inr (map (\<lambda>x. int (searchsorted_left (B ! i) x)) (column X i))"
    by (simp add: np_digitize_def)
  show ?thesis
    using assms(2) fa(1-4) by (simp add: score_feature_def get_col_def dig score_samples_fitted[OF ff])
qed

lemma score_feature_missing:
  assumes "fitted_arrays m H B nf" "nf \<le> i"
  shows "score_feature m X i = Inl IndexError"
  using fitted_arraysD(2,4)[OF assms(1)] assms(2) by (simp add: score_feature_def get_col_def)

lemma score_features_fitted:
  assumes "fitted_arrays m H B nf" "\<And>i. i \<in> set js \<Longrightarrow> i < nf"
  shows "score_features m X js
         = Inr (map (\<lambda>i. map (value_score m (B ! i) (H ! i)) (column X i)) js)"
  using assms(2) by (induction js) (simp_all add: score_feature_fitted[OF assms(1)])

lemma score_features_overrun:
  assumes "fitted_arrays m H B nf" "\<And>i. i \<in> set js \<Longrightarrow> i < nf" "nf \<le> k"
  shows "score_features m X (js @ k # rest) = Inl IndexError"
  using assms(2)
  by (induction js)
     (simp_all add: score_feature_fitted[OF assms(1)] score_feature_missing[OF assms(1,3)])

lemma check_array_rows:
  assumes "check_array X = Inr Y"
  shows "Y = X" "X \<noteq> []" "0 < shape1 X" "\<And>row. row \<in> set X \<Longrightarrow> length row = shape1 X"
  using assms by (auto simp: check_array_def list_all_iff split: if_splits)

lemma calculate_outlier_scores_fitted:
  assumes "fitted_arrays m H B nf" "shape1 X \<le> nf"
  shows "calculate_outlier_scores m X
         = Inr (map (\<lambda>row. map (\<lambda>i. value_score m (B ! i) (H ! i) (row ! i)) [0..<shape1 X]) X)"
proof -
  have "score_features m X [0..<shape1 X]
          = Inr (map (\<lambda>i. map (value_score m (B ! i) (H ! i)) (column X i)) [0..<shape1 X])"
    using assms(2) by (intro score_features_fitted[OF assms(1)]) simp
  moreover have "map (\<lambda>j. map (\<lambda>col. col ! j)
                   (map (\<lambda>i. map (value_score m (B ! i) (H ! i)) (column X i)) [0..<shape1 X]))
                   [0..<length X]
        = map (\<lambda>row. map (\<lambda>i. value_score m (B ! i) (H ! i) (row ! i)) [0..<shape1 X]) X"
    by (rule nth_equalityI) (simp_all add: column_def)
  ultimately show ?thesis by (simp add: calculate_outlier_scores_def)
qed

lemma calculate_outlier_scores_overrun:
  assumes "fitted_arrays m H B nf" "nf < shape1 X"
  shows "calculate_outlier_scores m X = Inl IndexError"
proof -
  have "[0..<shape1 X] = [0..<nf] @ nf # [Suc nf..<shape1 X]"
    using assms(2) by (metis less_imp_le_nat upt_add_eq_append upt_conv_Cons zero_le le_add_diff_inverse)
  then have "score_features m X [0..<shape1 X] = Inl IndexError"
    using score_features_overrun[OF assms(1), of "[0..<nf]" nf X "[Suc nf..<shape1 X]"] by simp
  then show ?thesis by (simp add: calculate_outlier_scores_def)
qed

lemma decision_function_fitted:
  assumes "fitted_arrays m H B nf" "check_array X = Inr X" "shape1 X \<le> nf"
  shows "decision_function m X
         = Inr (map (\<lambda>row. - (\<Sum>i<shape1 X. value_score m (B ! i) (H ! i) (row ! i))) X)"
proof -
  have "sum_list (map f [0..<n]) = (\<Sum>i<n. f i)" for f :: "nat \<Rightarrow> real" and n
    by (simp add: interv_sum_list_conv_sum_set_nat atLeast0LessThan)
  then show ?thesis
    using fitted_arraysD(1,2)[OF assms(1)] assms(2)
    by (simp add: decision_function_def calculate_outlier_scores_fitted[OF assms(1,3)] comp_def)
qed

lemma decision_function_overrun:
  assumes "fitted_arrays m H B nf" "check_array X = Inr X" "nf < shape1 X"
  shows "decision_function m X = Inl IndexError"
  using fitted_arraysD(1,2)[OF assms(1)] assms(2)
  by (simp add: decision_function_def calculate_outlier_scores_overrun[OF assms(1,3)])

subsection \<open>What a fit leaves in the model\<close>

lemma fit_loop_ok:
  assumes "1 \<le> nb" "X \<noteq> []"
  shows "(\<And>i. i \<in> set js \<Longrightarrow> i < length H \<and> i < length B) \<Longrightarrow>
    \<exists>H' B'. fit_loop nb X H B js = (None, H', B') \<and> length H' = length H \<and> length B' = length B
      \<and> (\<forall>i. i \<in> set js \<longrightarrow> np_histogram (column X i) nb = Inr (H' ! i, B' ! i))
      \<and> (\<forall>i. i \<notin> set js \<longrightarrow> H' ! i = H ! i \<and> B' ! i = B ! i)"
proof (induction js arbitrary: H B)
  case Nil
  then show ?case by simp
next
  case (Cons j js)
  obtain h b where hb: "np_histogram (column X j) nb = Inr (h, b)"
    using np_histogram_ok[OF assms(1)] by blast
  have col: "column X j \<noteq> []" using assms(2) by (simp add: column_def)
  have j: "j < length H" "j < length B" using Cons.prems by simp_all
  have close: "np_isclose 1 (sum_list (map2 (*) h (np_diff b))) (1 / 10)"
    by (simp add: np_histogram_mass[OF hb col] np_isclose_def)
  have step: "fit_loop nb X H B (j # js) = fit_loop nb X (H[j := h]) (B[j := b]) js"
    using hb close j by (simp add: Let_def)
  have "\<And>i. i \<in> set js \<Longrightarrow> i < length (H[j := h]) \<and> i < length (B[j := b])"
    using Cons.prems by simp
  from Cons.IH[OF this] obtain H' B' where r:
    "fit_loop nb X (H[j := h]) (B[j := b]) js = (None, H', B')"
    "length H' = length H" "length B' = length B"
    "\<And>i. i \<in> set js \<Longrightarrow> np_histogram (column X i) nb = Inr (H' ! i, B' ! i)"
    "\<And>i. i \<notin> set js \<Longrightarrow> H' ! i = (H[j := h]) ! i \<and> B' ! i = (B[j := b]) ! i"
    by auto
  have "np_histogram (column X i) nb = Inr (H' ! i, B' ! i)" if "i \<in> set (j # js)" for i
  proof (cases "i \<in> set js")
    case True
    then show ?thesis by (rule r(4))
  next
    case False
    then have "i = j" using that by simp
    then show ?thesis using r(5)[OF False] j hb by simp
  qed
  moreover have "H' ! i = H ! i \<and> B' ! i = B ! i" if "i \<notin> set (j # js)" for i
    using that r(5)[of i] by simp
  ultimately show ?case using step r(1-3) by auto
qed

lemma fit_loop_fail:
  assumes "nb < 1"
  shows "fit_loop nb X H B (j # js) = (Some ValueError, H, B)"
  by (simp add: np_histogram_fail[OF assms])

lemma np_zeros_length:
  assumes "np_zeros r c = Inr A"
  shows "0 \<le> r" "length A = c"
  using assms by (auto simp: np_zeros_def split: if_splits)

text \<open>The histogram of every feature of \<open>X\<close> is a well-shaped histogram.\<close>

lemma histograms_fitted:
  assumes "hist m = Some H" "bin_edges m = Some B" "length H = nf" "length B = nf"
    "\<And>i. i < nf \<Longrightarrow> np_histogram (column X i) (n_bins m) = Inr (H ! i, B ! i)"
  shows "fitted_arrays m H B nf"
proof -
  have "fitted_feature m (B ! i) (H ! i)" if "i < nf" for i
    using np_histogram_edges[OF assms(5)[OF that]] np_histogram_length[OF assms(5)[OF that]]
      np_histogram_strict[OF assms(5)[OF that]]
    by (simp add: fitted_feature_def)
  then show ?thesis using assms(1-4) by (simp add: fitted_arrays_def list_all_iff)
qed

lemma fit_ok:
  assumes "check_array X = Inr X" "1 \<le> n_bins m"
  shows "\<exists>H B. length H = shape1 X \<and> length B = shape1 X
    \<and> (\<forall>i<shape1 X. np_histogram (column X i) (n_bins m) = Inr (H ! i, B ! i))
    \<and> fit_loop (n_bins m) X (replicate (shape1 X) (replicate (nat (n_bins m)) 0))
          (replicate (shape1 X) (replicate (nat (n_bins m + 1)) 0)) [0..<shape1 X] = (None, H, B)
    \<and> fit pds m X =
        (if pds (map (\<lambda>row. - (\<Sum>i<shape1 X.
                 value_score m (B ! i) (H ! i) (row ! i))) X)
         then Some BaseError else None,
         m\<lparr>hist := Some H, bin_edges := Some B,
            decision_scores := Some (map (\<lambda>row. - (\<Sum>i<shape1 X.
                 value_score m (B ! i) (H ! i) (row ! i))) X)\<rparr>)"
proof -
  let ?nf = "shape1 X"
  let ?H0 = "replicate ?nf (replicate (nat (n_bins m)) (0::real))"
  let ?B0 = "replicate ?nf (replicate (nat (n_bins m + 1)) (0::real))"
  have ne: "X \<noteq> []" using check_array_rows(2)[OF assms(1)] .
  from fit_loop_ok[OF assms(2) ne, of "[0..<?nf]" ?H0 ?B0] obtain H B where r:
    "fit_loop (n_bins m) X ?H0 ?B0 [0..<?nf] = (None, H, B)"
    "length H = ?nf" "length B = ?nf"
    "\<And>i. i < ?nf \<Longrightarrow> np_histogram (column X i) (n_bins m) = Inr (H ! i, B ! i)"
    by auto
  let ?m2 = "m\<lparr>hist := Some H, bin_edges := Some B\<rparr>"
  have fa: "fitted_arrays ?m2 H B ?nf"
    by (rule histograms_fitted) (use r in simp_all)
  have vs: "value_score ?m2 = value_score m" by (simp add: value_score_def fun_eq_iff)
  have sums: "sum_list (map f [0..<n]) = (\<Sum>i<n. f i)" for f :: "nat \<Rightarrow> real" and n
    by (simp add: interv_sum_list_conv_sum_set_nat atLeast0LessThan)
  have calc: "calculate_outlier_scores ?m2 X
      = Inr (map (\<lambda>row. map (\<lambda>i. value_score m (B ! i) (H ! i) (row ! i)) [0..<?nf]) X)"
    using calculate_outlier_scores_fitted[OF fa, of X] by (simp add: vs)
  have "fit pds m X =
        (if pds (map (\<lambda>row. - (\<Sum>i<?nf. value_score m (B ! i) (H ! i) (row ! i))) X)
         then Some BaseError else None,
         m\<lparr>hist := Some H, bin_edges := Some B,
            decision_scores := Some (map (\<lambda>row. - (\<Sum>i<?nf.
                 value_score m (B ! i) (H ! i) (row ! i))) X)\<rparr>)"
    using assms by (simp add: fit_def np_zeros_def r(1) calc sums comp_def Let_def)
  then show ?thesis using r by blast
qed

lemma fit_None:
  assumes "fit pds m X = (None, m')"
  shows "check_array X = Inr X" "1 \<le> n_bins m"
proof -
  show c: "check_array X = Inr X"
    using assms by (auto simp: fit_def check_array_def split: if_splits)
  show "1 \<le> n_bins m"
  proof (rule ccontr)
    assume "\<not> 1 \<le> n_bins m"
    then have lt: "n_bins m < 1" by simp
    have "0 < shape1 X" using check_array_rows(3)[OF c] .
    then have "[0..<shape1 X] = 0 # [1..<shape1 X]" by (simp add: upt_conv_Cons)
    then have "fit_loop (n_bins m) X H B [0..<shape1 X] = (Some ValueError, H, B)" for H B
      using fit_loop_fail[OF lt] by simp
    then have "fst (fit pds m X) \<noteq> None"
      using c by (simp add: fit_def np_zeros_def)
    then show False using assms by simp
  qed
qed

text \<open>A successful fit, told from its result alone.\<close>

lemma fit_NoneD:
  assumes "fit pds m X = (None, m')"
  shows "\<exists>H B. fitted_arrays m' H B (shape1 X)
     \<and> (\<forall>i<shape1 X. np_histogram (column X i) (n_bins m) = Inr (H ! i, B ! i))
     \<and> value_score m' = value_score m
     \<and> m' = m\<lparr>hist := Some H, bin_edges := Some B,
            decision_scores := Some (map (\<lambda>row. - (\<Sum>i<shape1 X.
                 value_score m (B ! i) (H ! i) (row ! i))) X)\<rparr>"
proof -
  note c = fit_None[OF assms]
  from fit_ok[OF c, of pds] obtain H B where r:
    "length H = shape1 X" "length B = shape1 X"
    "\<And>i. i < shape1 X \<Longrightarrow> np_histogram (column X i) (n_bins m) = Inr (H ! i, B ! i)"
    "fit pds m X =
        (if pds (map (\<lambda>row. - (\<Sum>i<shape1 X. value_score m (B ! i) (H ! i) (row ! i))) X)
         then Some BaseError else None,
         m\<lparr>hist := Some H, bin_edges := Some B,
            decision_scores := Some (map (\<lambda>row. - (\<Sum>i<shape1 X.
                 value_score m (B ! i) (H ! i) (row ! i))) X)\<rparr>)"
    by blast
  have m': "m' = m\<lparr>hist := Some H, bin_edges := Some B,
            decision_scores := Some (map (\<lambda>row. - (\<Sum>i<shape1 X.
                 value_score m (B ! i) (H ! i) (row ! i))) X)\<rparr>"
    using assms r(4) by simp
  have fa: "fitted_arrays m' H B (shape1 X)"
    by (rule histograms_fitted) (use r(1-3) in \<open>simp_all add: m'\<close>)
  have "value_score m' = value_score m" by (simp add: m' value_score_def fun_eq_iff)
  then show ?thesis using fa r(3) m' by blast
qed

subsection \<open>The worked example, evaluated\<close>

lemma upt_small: "[0..<1] = [0]" "[0..<2] = [0, 1]" "[0..<3] = [0, 1, 2]" "[0..<4] = [0, 1, 2, 3]"
  by (simp_all add: upt_rec)

lemma log2_values: "log 2 (1 / 2) = - 1" "log 2 8 = 3" "log 2 4 = 2"
proof -
  show "log 2 (1 / 2) = - 1" by (simp add: log_divide)
  have "log 2 (2 ^ 3) = 3" by (subst log_nat_power) simp_all
  then show "log 2 8 = 3" by simp
  have "log 2 (2 ^ 2) = 2" by (subst log_nat_power) simp_all
  then show "log 2 4 = 2" by simp
qed

text \<open>The roundings that the tolerance tests of the example need.\<close>

lemma ex_fl64:
  "fl64 (1 / 15) = 4803839602528529 / 72057594037927936"
  "fl64 (1 / 30) = 4803839602528529 / 144115188075855872"
  "fl64 (4803839602528529 / 144115188075855872) = 4803839602528529 / 144115188075855872"
  "fl64 1 = 1"
  "fl64 (9 / 5) = 8106479329266893 / 4503599627370496"
proof -
  show "fl64 (1 / 15) = 4803839602528529 / 72057594037927936"
    by (subst fl64_grid[where e = "- 4" and u = "1 / 72057594037927936"])
       (simp_all add: powr_minus_divide round_even_def Let_def)
  show "fl64 (1 / 30) = 4803839602528529 / 144115188075855872"
    by (subst fl64_grid[where e = "- 5" and u = "1 / 144115188075855872"])
       (simp_all add: powr_minus_divide round_even_def Let_def)
  show "fl64 (4803839602528529 / 144115188075855872) = 4803839602528529 / 144115188075855872"
    by (subst fl64_grid[where e = "- 5" and u = "1 / 144115188075855872"])
       (simp_all add: powr_minus_divide round_even_def Let_def)
  show "fl64 1 = 1"
    by (subst fl64_grid[where e = 0 and u = "1 / 4503599627370496"])
       (simp_all add: powr_minus_divide round_even_def Let_def)
  show "fl64 (9 / 5) = 8106479329266893 / 4503599627370496"
    by (subst fl64_grid[where e = 0 and u = "1 / 4503599627370496"])
       (simp_all add: powr_minus_divide round_even_def Let_def)
qed

lemma ex_check: "check_array ex_X = Inr ex_X"
  by (simp add: check_array_def ex_X_def shape1_def)

lemma ex_column: "column ex_X 0 = [0, 0, 0, 1 / 5, 1 / 5, 1 / 5]" "shape1 ex_X = 1"
  by (simp_all add: column_def ex_X_def shape1_def)

lemma ex_lin: "linspace 0 (1 / 5) 4 = [0, 1 / 15, 2 / 15, 1 / 5]"
  by (simp add: linspace_def upt_small)

lemma ex_hist:
  "np_histogram [0, 0, 0, 1 / 5, 1 / 5, 1 / 5] 3
     = Inr ([15 / 2, 0, 15 / 2], [0, 1 / 15, 2 / 15, 1 / 5])"
  by (simp add: np_histogram_def get_outer_edges_def ex_lin bin_count_def in_bin_def
      np_diff_def Let_def upt_small)

lemma ex_fit_loop:
  "fit_loop 3 ex_X [h0] [b0] [0]
     = (None, [[15 / 2, 0, 15 / 2]], [[0, 1 / 15, 2 / 15, 1 / 5]])"
  by (simp add: ex_column ex_hist np_isclose_def np_diff_def upt_small)

lemma calculate_single_feature:
  assumes "shape1 X = 1" "score_feature m X 0 = Inr col" "length col = length X"
  shows "calculate_outlier_scores m X = Inr (map (\<lambda>s. [s]) col)"
proof -
  have "map (\<lambda>j. [col ! j]) [0..<length X] = map (\<lambda>s. [s]) col"
    using assms(3) by (intro nth_equalityI) simp_all
  then show ?thesis using assms(1,2) by (simp add: calculate_outlier_scores_def upt_small)
qed

lemma ex_Q_column:
  "column ex_Q 0 = [- 1 / 30, 1 / 30, - 1, 7 / 30, 2, 1 / 10, 1 / 15, 0]" "shape1 ex_Q = 1"
  by (simp_all add: column_def ex_Q_def shape1_def)

lemma ex_scores:
  assumes "hist m = Some [[15 / 2, 0, 15 / 2]]" "bin_edges m = Some [[0, 1 / 15, 2 / 15, 1 / 5]]"
    "n_bins m = 3" "alpha m = 1 / 2" "tol m = 1 / 2"
  shows "calculate_outlier_scores m ex_X = Inr [[3], [3], [3], [3], [3], [3]]"
    and "calculate_outlier_scores m ex_Q = Inr [[3], [3], [- 1], [3], [- 1], [- 1], [3], [3]]"
proof -
  have sf: "score_feature m X 0
      = score_samples 3 (1 / 2) [0, 1 / 15, 2 / 15, 1 / 5] [3, - 1, 3]
          (zip (column X 0) (map (\<lambda>x. int (searchsorted_left [0, 1 / 15, 2 / 15, 1 / 5] x))
             (column X 0)))" for X
    by (simp add: score_feature_def assms get_col_def np_digitize_def log2_values)
  have "score_feature m ex_X 0 = Inr [3, 3, 3, 3, 3, 3]"
    unfolding sf ex_column
    by (simp add: searchsorted_left_def sample_score_def py_index_def np_min_def
        fl64_zero ex_fl64)
  then show "calculate_outlier_scores m ex_X = Inr [[3], [3], [3], [3], [3], [3]]"
    using calculate_single_feature[OF ex_column(2), of m "[3, 3, 3, 3, 3, 3]"]
    by (simp add: ex_X_def)
  have "score_feature m ex_Q 0 = Inr [3, 3, - 1, 3, - 1, - 1, 3, 3]"
    unfolding sf ex_Q_column
    by (simp add: searchsorted_left_def sample_score_def py_index_def np_min_def
        fl64_zero ex_fl64)
  then show "calculate_outlier_scores m ex_Q = Inr [[3], [3], [- 1], [3], [- 1], [- 1], [3], [3]]"
    using calculate_single_feature[OF ex_Q_column(2), of m "[3, 3, - 1, 3, - 1, - 1, 3, 3]"]
    by (simp add: ex_Q_def)
qed

lemma ex_fit: "fit (\<lambda>s. False) ex_model ex_X = (None, ex_fitted)"
proof -
  have "calculate_outlier_scores
          (ex_model\<lparr>hist := Some [[15 / 2, 0, 15 / 2]],
                    bin_edges := Some [[0, 1 / 15, 2 / 15, 1 / 5]]\<rparr>) ex_X
        = Inr [[3], [3], [3], [3], [3], [3]]"
    by (rule ex_scores(1)) (simp_all add: ex_model_def)
  moreover have "n_bins ex_model = 3" by (simp add: ex_model_def)
  ultimately show ?thesis
    by (simp add: fit_def ex_check ex_column np_zeros_def ex_fit_loop ex_fitted_def
        upt_small del: fit_loop.simps)
qed

section \<open>The claims\<close>

lemma fit_bins_fail:
  assumes "check_array X = Inr X" "n_bins m < 1"
  shows "fit pds m X = (Some ValueError, m) \<or>
         fit pds m X = (Some ValueError, m\<lparr>hist := Some (replicate (shape1 X) []),
                          bin_edges := Some (replicate (shape1 X) [0])\<rparr>)"
proof (cases "n_bins m < 0")
  case True
  then show ?thesis using assms(1) by (simp add: fit_def np_zeros_def)
next
  case False
  then have z: "n_bins m = 0" using assms(2) by simp
  have "0 < shape1 X" using check_array_rows(3)[OF assms(1)] .
  then have "[0..<shape1 X] = 0 # [1..<shape1 X]" by (simp add: upt_conv_Cons)
  then have "fit_loop 0 X H B [0..<shape1 X] = (Some ValueError, H, B)" for H B
    using fit_loop_fail[of 0] by simp
  then show ?thesis using assms(1) z by (simp add: fit_def np_zeros_def)
qed

lemma fitted_histograms:
  assumes "fit pds m0 X = (None, m)" "hist m = Some H" "bin_edges m = Some B"
  shows "fitted_arrays m H B (shape1 X)"
    and "\<And>i. i < shape1 X \<Longrightarrow> np_histogram (column X i) (n_bins m0) = Inr (H ! i, B ! i)"
    and "n_bins m = n_bins m0" "alpha m = alpha m0" "tol m = tol m0"
proof -
  from fit_NoneD[OF assms(1)] obtain H' B' where r:
    "fitted_arrays m H' B' (shape1 X)"
    "\<And>i. i < shape1 X \<Longrightarrow> np_histogram (column X i) (n_bins m0) = Inr (H' ! i, B' ! i)"
    "m = m0\<lparr>hist := Some H', bin_edges := Some B',
            decision_scores := Some (map (\<lambda>row. - (\<Sum>i<shape1 X.
                 value_score m0 (B' ! i) (H' ! i) (row ! i))) X)\<rparr>"
    by blast
  have eq: "H' = H" "B' = B" using r(3) assms(2,3) by simp_all
  show "fitted_arrays m H B (shape1 X)" using r(1) by (simp add: eq)
  show "\<And>i. i < shape1 X \<Longrightarrow> np_histogram (column X i) (n_bins m0) = Inr (H ! i, B ! i)"
    using r(2) by (simp add: eq)
  show "n_bins m = n_bins m0" "alpha m = alpha m0" "tol m = tol m0" by (simp_all add: r(3))
qed

lemma ex_fitted_fields:
  "hist ex_fitted = Some ex_H" "bin_edges ex_fitted = Some ex_B"
  "n_bins ex_fitted = 3" "alpha ex_fitted = 1 / 2" "tol ex_fitted = 1 / 2"
  by (simp_all add: ex_fitted_def ex_model_def ex_H_def ex_B_def)

lemma ex_query:
  "check_array ex_Q = Inr ex_Q" "shape1 ex_Q = shape1 ex_X" "length ex_Q = 8"
  "calculate_outlier_scores ex_fitted ex_Q = Inr ex_S"
proof -
  show "check_array ex_Q = Inr ex_Q" by (simp add: check_array_def ex_Q_def shape1_def)
  show "shape1 ex_Q = shape1 ex_X" by (simp add: ex_Q_column ex_column)
  show "length ex_Q = 8" by (simp add: ex_Q_def)
  show "calculate_outlier_scores ex_fitted ex_Q = Inr ex_S"
    unfolding ex_S_def by (rule ex_scores(2)) (simp_all add: ex_fitted_def ex_model_def)
qed

text \<open>The entry of the score matrix for sample \<open>j\<close> and feature \<open>i\<close> of a query.\<close>

lemma fitted_entry:
  assumes "fit pds m0 X = (None, m)" "hist m = Some H" "bin_edges m = Some B"
    "shape1 Q \<le> shape1 X"
  shows "\<exists>S. calculate_outlier_scores m Q = Inr S \<and> length S = length Q
     \<and> (\<forall>j i. j < length Q \<and> i < shape1 Q
           \<longrightarrow> S ! j ! i = value_score m (B ! i) (H ! i) (Q ! j ! i))
     \<and> (\<forall>j. j < length Q \<longrightarrow> length (S ! j) = shape1 Q)"
proof -
  have fa: "fitted_arrays m H B (shape1 X)" by (rule fitted_histograms(1)[OF assms(1-3)])
  show ?thesis
    unfolding calculate_outlier_scores_fitted[OF fa assms(4)] by simp
qed

lemma fitted_feature_of_fit:
  assumes "fit pds m0 X = (None, m)" "hist m = Some H" "bin_edges m = Some B" "i < shape1 X"
  shows "fitted_feature m (B ! i) (H ! i)" "\<And>d. d \<in> set (H ! i) \<Longrightarrow> 0 \<le> d"
proof -
  have fa: "fitted_arrays m H B (shape1 X)" by (rule fitted_histograms(1)[OF assms(1-3)])
  show "fitted_feature m (B ! i) (H ! i)" by (rule fitted_arraysD(5)[OF fa assms(4)])
  show "0 \<le> d" if "d \<in> set (H ! i)" for d
    using np_histogram_nonneg[OF fitted_histograms(2)[OF assms(1-3) assms(4)] that] .
qed

text \<open>The least score of a feature is the score of its least density.\<close>

lemma Min_log_density:
  assumes "ds \<noteq> []" "\<And>d. d \<in> set ds \<Longrightarrow> 0 \<le> d" "0 < a"
  shows "Min ((\<lambda>d. log 2 (d + a)) ` set ds) = log 2 (Min (set ds) + a)"
proof (rule Min_eqI)
  show "finite ((\<lambda>d. log 2 (d + a)) ` set ds)" by simp
  show "log 2 (Min (set ds) + a) \<in> (\<lambda>d. log 2 (d + a)) ` set ds"
    using assms(1) by (intro imageI Min_in) simp_all
  fix y assume "y \<in> (\<lambda>d. log 2 (d + a)) ` set ds"
  then obtain d where d: "d \<in> set ds" "y = log 2 (d + a)" by auto
  have "Min (set ds) \<in> set ds" using assms(1) by (intro Min_in) simp_all
  then have "0 < Min (set ds) + a" "0 < d + a" "Min (set ds) \<le> d"
    using assms(2)[of "Min (set ds)"] assms(2)[OF d(1)] assms(3) d(1) by simp_all
  then show "log 2 (Min (set ds) + a) \<le> y" by (simp add: d(2))
qed

subsection \<open>The example of a rounded tolerance test, evaluated\<close>

lemma r3_fl64:
  "fl64 3 = 3"
  "fl64 (10808639105689191 / 36028797018963968) = 1351079888211149 / 4503599627370496"
  "fl64 (1351079888211149 / 4503599627370496) = 1351079888211149 / 4503599627370496"
  "fl64 (1 / 4) = 1 / 4"
proof -
  show "fl64 3 = 3"
    by (subst fl64_grid[where e = 1 and u = "1 / 2251799813685248"])
       (simp_all add: powr_minus_divide round_even_def Let_def)
  show "fl64 (10808639105689191 / 36028797018963968) = 1351079888211149 / 4503599627370496"
    by (subst fl64_grid[where e = "- 2" and u = "1 / 18014398509481984"])
       (simp_all add: powr_minus_divide round_even_def Let_def)
  show "fl64 (1351079888211149 / 4503599627370496) = 1351079888211149 / 4503599627370496"
    by (subst fl64_grid[where e = "- 2" and u = "1 / 18014398509481984"])
       (simp_all add: powr_minus_divide round_even_def Let_def)
  show "fl64 (1 / 4) = 1 / 4"
    by (subst fl64_grid[where e = "- 2" and u = "1 / 18014398509481984"])
       (simp_all add: powr_minus_divide round_even_def Let_def)
qed

lemma r3_X_facts:
  "check_array r3_X = Inr r3_X" "shape1 r3_X = 1" "column r3_X 0 = [0, 9]"
  by (simp_all add: check_array_def r3_X_def shape1_def column_def)

lemma r3_Q_facts:
  "check_array r3_Q = Inr r3_Q" "shape1 r3_Q = 1" "length r3_Q = 5"
  "column r3_Q 0 = [- (1351079888211149 / 4503599627370496), - 1, 3 / 2, 37 / 4, 10]"
  by (simp_all add: check_array_def r3_Q_def shape1_def column_def)

lemma r3_hist: "np_histogram [0, 9] 3 = Inr ([1 / 6, 0, 1 / 6], [0, 3, 6, 9])"
  by (simp add: np_histogram_def get_outer_edges_def linspace_def bin_count_def in_bin_def
      np_diff_def Let_def upt_small)

lemma r3_fit_loop: "fit_loop 3 r3_X [h0] [b0] [0] = (None, r3_H, r3_B)"
  by (simp add: r3_X_facts r3_hist np_isclose_def np_diff_def upt_small r3_H_def r3_B_def)

lemma r3_scores:
  assumes "hist m = Some r3_H" "bin_edges m = Some r3_B" "n_bins m = 3"
    "alpha m = 3602879701896397 / 36028797018963968"
    "tol m = 3602879701896397 / 36028797018963968"
  shows "calculate_outlier_scores m r3_X
           = Inr [[log 2 (1 / 6 + 3602879701896397 / 36028797018963968)],
                  [log 2 (1 / 6 + 3602879701896397 / 36028797018963968)]]"
    and "calculate_outlier_scores m r3_Q = Inr r3_S"
proof -
  have sf: "score_feature m X 0
      = score_samples 3 (3602879701896397 / 36028797018963968) [0, 3, 6, 9]
          [log 2 (1 / 6 + 3602879701896397 / 36028797018963968),
           log 2 (0 + 3602879701896397 / 36028797018963968),
           log 2 (1 / 6 + 3602879701896397 / 36028797018963968)]
          (zip (column X 0) (map (\<lambda>x. int (searchsorted_left [0, 3, 6, 9] x)) (column X 0)))"
    for X
    by (simp add: score_feature_def assms get_col_def np_digitize_def r3_H_def r3_B_def)
  have "score_feature m r3_X 0
          = Inr [log 2 (1 / 6 + 3602879701896397 / 36028797018963968),
                 log 2 (1 / 6 + 3602879701896397 / 36028797018963968)]"
    unfolding sf r3_X_facts
    by (simp add: searchsorted_left_def sample_score_def py_index_def np_min_def
        fl64_zero r3_fl64 ex_fl64)
  then show "calculate_outlier_scores m r3_X
           = Inr [[log 2 (1 / 6 + 3602879701896397 / 36028797018963968)],
                  [log 2 (1 / 6 + 3602879701896397 / 36028797018963968)]]"
    using calculate_single_feature[OF r3_X_facts(2), of m] by (simp add: r3_X_def)
  have "score_feature m r3_Q 0 = Inr (map hd r3_S)"
    unfolding sf r3_Q_facts
    by (simp add: searchsorted_left_def sample_score_def py_index_def np_min_def
        fl64_zero r3_fl64 ex_fl64 r3_S_def)
  then show "calculate_outlier_scores m r3_Q = Inr r3_S"
    using calculate_single_feature[OF r3_Q_facts(2), of m "map hd r3_S"]
    by (simp add: r3_Q_facts r3_S_def)
qed

lemma r3_fit: "fit (\<lambda>s. False) r3_model r3_X = (None, r3_fitted)"
proof -
  have "calculate_outlier_scores (r3_model\<lparr>hist := Some r3_H, bin_edges := Some r3_B\<rparr>) r3_X
           = Inr [[log 2 (1 / 6 + 3602879701896397 / 36028797018963968)],
                  [log 2 (1 / 6 + 3602879701896397 / 36028797018963968)]]"
    by (rule r3_scores(1)) (simp_all add: r3_model_def)
  moreover have "n_bins r3_model = 3" by (simp add: r3_model_def)
  ultimately show ?thesis
    by (simp add: fit_def r3_X_facts np_zeros_def r3_fit_loop r3_fitted_def upt_small
        del: fit_loop.simps)
qed

lemma r3_fitted_fields:
  "hist r3_fitted = Some r3_H" "bin_edges r3_fitted = Some r3_B" "n_bins r3_fitted = 3"
  "alpha r3_fitted = 3602879701896397 / 36028797018963968"
  "tol r3_fitted = 3602879701896397 / 36028797018963968"
  by (simp_all add: r3_fitted_def r3_model_def)

lemma r3_query: "calculate_outlier_scores r3_fitted r3_Q = Inr r3_S"
  by (rule r3_scores(2)[OF r3_fitted_fields])


subsection \<open>C1: values outside the fitted range\<close>

text \<open>
  C1, as stated, fails where a rounding decides the test: the program compares
  \<open>dist\<close> with \<open>bin_width * tol\<close> in doubles. In the model fitted on 0 and 9 with three
  bins the first bin has the width 3, and the product of 3 and the double nearest to one
  tenth is rounded up to the double just above three tenths. The query value that far
  below the first edge is farther below it than \<open>tol\<close> times the width, and yet it scores
  as the first bin does, which is not the least score of the feature.
\<close>

theorem rounded_tolerance_counterexample:
  "fit (\<lambda>s. False) r3_model r3_X = (None, r3_fitted)
   \<and> hist r3_fitted = Some r3_H \<and> bin_edges r3_fitted = Some r3_B
   \<and> calculate_outlier_scores r3_fitted r3_Q = Inr r3_S
   \<and> r3_Q ! 0 ! 0 < r3_B ! 0 ! 0
   \<and> tol r3_fitted * (r3_B ! 0 ! 1 - r3_B ! 0 ! 0) < r3_B ! 0 ! 0 - r3_Q ! 0 ! 0
   \<and> r3_S ! 0 ! 0 = log 2 (r3_H ! 0 ! 0 + alpha r3_fitted)
   \<and> r3_S ! 0 ! 0 \<noteq> Min ((\<lambda>d. log 2 (d + alpha r3_fitted)) ` set (r3_H ! 0))"
proof -
  have lt: "log 2 (0 + 3602879701896397 / 36028797018963968)
              < log 2 (1 / 6 + 3602879701896397 / 36028797018963968)"
    by simp
  have mn: "Min ((\<lambda>d. log 2 (d + alpha r3_fitted)) ` set (r3_H ! 0))
          = log 2 (0 + 3602879701896397 / 36028797018963968)"
    using lt by (simp add: r3_H_def r3_fitted_fields)
  have s0: "r3_S ! 0 ! 0 = log 2 (1 / 6 + 3602879701896397 / 36028797018963968)"
    by (simp add: r3_S_def)
  have "r3_S ! 0 ! 0 \<noteq> Min ((\<lambda>d. log 2 (d + alpha r3_fitted)) ` set (r3_H ! 0))"
    unfolding s0 mn using lt by linarith
  moreover have "r3_Q ! 0 ! 0 < r3_B ! 0 ! 0"
    "tol r3_fitted * (r3_B ! 0 ! 1 - r3_B ! 0 ! 0) < r3_B ! 0 ! 0 - r3_Q ! 0 ! 0"
    "r3_S ! 0 ! 0 = log 2 (r3_H ! 0 ! 0 + alpha r3_fitted)"
    by (simp_all add: r3_Q_def r3_B_def r3_H_def r3_S_def r3_fitted_fields)
  ultimately show ?thesis
    using r3_fit r3_fitted_fields(1,2) r3_query by blast
qed

text \<open>
  C1, amended. In a fitted model with a positive regularizer, with the two differences
  and the product of the test \<open>dist <= bin_width * tol\<close> rounded to doubles as the
  program computes them: a value below the first edge that passes the test against the
  first bin scores as the first bin does, which is also the score of the first bin's
  midpoint; a value below the first edge that fails it scores the least of the feature's
  bin scores, which is the score of its least density. A value above the last edge that
  passes the test against the last bin scores as the last bin does, and one that fails it
  scores the same least score.
\<close>

theorem out_of_range_scores:
  assumes "fit pds m0 X = (None, m)" "hist m = Some H" "bin_edges m = Some B"
    and "0 < alpha m"
    and "check_array Q = Inr Q" "shape1 Q = shape1 X" "j < length Q" "i < shape1 Q"
  shows "\<exists>S. calculate_outlier_scores m Q = Inr S \<and>
    (Q ! j ! i < B ! i ! 0
       \<and> fl64 (B ! i ! 0 - Q ! j ! i) \<le> fl64 (fl64 (B ! i ! 1 - B ! i ! 0) * tol m)
       \<longrightarrow> S ! j ! i = log 2 (H ! i ! 0 + alpha m)) \<and>
    (Q ! j ! i = (B ! i ! 0 + B ! i ! 1) / 2
       \<longrightarrow> S ! j ! i = log 2 (H ! i ! 0 + alpha m)) \<and>
    (Q ! j ! i < B ! i ! 0
       \<and> fl64 (fl64 (B ! i ! 1 - B ! i ! 0) * tol m) < fl64 (B ! i ! 0 - Q ! j ! i)
       \<longrightarrow> S ! j ! i = Min ((\<lambda>d. log 2 (d + alpha m)) ` set (H ! i))
         \<and> S ! j ! i = log 2 (Min (set (H ! i)) + alpha m)) \<and>
    (B ! i ! nat (n_bins m) < Q ! j ! i
       \<and> fl64 (Q ! j ! i - B ! i ! nat (n_bins m))
           \<le> fl64 (fl64 (B ! i ! nat (n_bins m) - B ! i ! (nat (n_bins m) - 1)) * tol m)
       \<longrightarrow> S ! j ! i = log 2 (H ! i ! (nat (n_bins m) - 1) + alpha m)) \<and>
    (B ! i ! nat (n_bins m) < Q ! j ! i
       \<and> fl64 (fl64 (B ! i ! nat (n_bins m) - B ! i ! (nat (n_bins m) - 1)) * tol m)
           < fl64 (Q ! j ! i - B ! i ! nat (n_bins m))
       \<longrightarrow> S ! j ! i = Min ((\<lambda>d. log 2 (d + alpha m)) ` set (H ! i))
         \<and> S ! j ! i = log 2 (Min (set (H ! i)) + alpha m))"
proof -
  let ?e = "B ! i" and ?d = "H ! i" and ?v = "Q ! j ! i" and ?n = "nat (n_bins m)"
  have iX: "i < shape1 X" using assms(6,8) by simp
  from fitted_entry[OF assms(1-3), of Q] assms(6,7,8)
  obtain S where S: "calculate_outlier_scores m Q = Inr S"
    "S ! j ! i = value_score m ?e ?d ?v" by auto
  note ff = fitted_feature_of_fit(1)[OF assms(1-3) iX]
  have nonneg: "\<And>d. d \<in> set ?d \<Longrightarrow> 0 \<le> d"
    by (rule fitted_feature_of_fit(2)[OF assms(1-3) iX])
  have shape: "1 \<le> n_bins m" "length ?d = ?n" "length ?e = Suc ?n" "sorted_wrt (<) ?e"
    using ff by (simp_all add: fitted_feature_def)
  have ne: "?d \<noteq> []" using shape by auto
  have w0: "?e ! 0 < ?e ! 1" using shape by (simp add: sorted_wrt_iff_nth_less)
  note mn = Min_log_density[OF ne nonneg assms(4)]
  have c1: "S ! j ! i = log 2 (?d ! 0 + alpha m)"
    if "?v < ?e ! 0 \<and> fl64 (?e ! 0 - ?v) \<le> fl64 (fl64 (?e ! 1 - ?e ! 0) * tol m)"
    using that value_score_below[OF ff, of ?v] by (simp add: S(2))
  have c2: "S ! j ! i = log 2 (?d ! 0 + alpha m)" if "?v = (?e ! 0 + ?e ! 1) / 2"
  proof -
    have "?e ! 0 < ?v" "?v \<le> ?e ! Suc 0" using that w0 by simp_all
    then show ?thesis using value_score_inside[OF ff, of 0 ?v] shape(1) by (simp add: S(2))
  qed
  have c3: "S ! j ! i = Min ((\<lambda>d. log 2 (d + alpha m)) ` set ?d)
            \<and> S ! j ! i = log 2 (Min (set ?d) + alpha m)"
    if "?v < ?e ! 0 \<and> fl64 (fl64 (?e ! 1 - ?e ! 0) * tol m) < fl64 (?e ! 0 - ?v)"
    using that value_score_below[OF ff, of ?v] by (simp add: S(2) mn)
  have c4: "S ! j ! i = log 2 (?d ! (?n - 1) + alpha m)"
    if "?e ! ?n < ?v
        \<and> fl64 (?v - ?e ! ?n) \<le> fl64 (fl64 (?e ! ?n - ?e ! (?n - 1)) * tol m)"
    using that value_score_above[OF ff, of ?v] by (simp add: S(2))
  have c5: "S ! j ! i = Min ((\<lambda>d. log 2 (d + alpha m)) ` set ?d)
            \<and> S ! j ! i = log 2 (Min (set ?d) + alpha m)"
    if "?e ! ?n < ?v
        \<and> fl64 (fl64 (?e ! ?n - ?e ! (?n - 1)) * tol m) < fl64 (?v - ?e ! ?n)"
    using that value_score_above[OF ff, of ?v] by (simp add: S(2) mn)
  from S(1) c1 c2 c3 c4 c5 show ?thesis by blast
qed

theorem out_of_range_scores_witness:
  "fit (\<lambda>s. False) r3_model r3_X = (None, r3_fitted)
   \<and> 0 < alpha r3_fitted
   \<and> calculate_outlier_scores r3_fitted r3_Q = Inr r3_S
   \<and> r3_S ! 0 ! 0 = log 2 (r3_H ! 0 ! 0 + alpha r3_fitted)
   \<and> r3_S ! 2 ! 0 = log 2 (r3_H ! 0 ! 0 + alpha r3_fitted)
   \<and> r3_S ! 1 ! 0 = log 2 (Min (set (r3_H ! 0)) + alpha r3_fitted)
   \<and> r3_S ! 3 ! 0 = log 2 (r3_H ! 0 ! (nat (n_bins r3_fitted) - 1) + alpha r3_fitted)
   \<and> r3_S ! 4 ! 0 = log 2 (Min (set (r3_H ! 0)) + alpha r3_fitted)"
proof -
  have a: "0 < alpha r3_fitted" by (simp add: r3_fitted_fields)
  have i: "0 < shape1 r3_Q" by (simp add: r3_Q_facts)
  have sh: "shape1 r3_Q = shape1 r3_X" by (simp add: r3_Q_facts r3_X_facts)
  note t = out_of_range_scores[OF r3_fit r3_fitted_fields(1,2) a r3_Q_facts(1) sh _ i,
      unfolded r3_query]
  have j: "0 < length r3_Q" "1 < length r3_Q" "2 < length r3_Q" "3 < length r3_Q"
    "4 < length r3_Q"
    by (simp_all add: r3_Q_facts)
  have p0: "r3_Q ! 0 ! 0 < r3_B ! 0 ! 0
      \<and> fl64 (r3_B ! 0 ! 0 - r3_Q ! 0 ! 0)
          \<le> fl64 (fl64 (r3_B ! 0 ! 1 - r3_B ! 0 ! 0) * tol r3_fitted)"
    by (simp add: r3_Q_def r3_B_def r3_fitted_fields r3_fl64)
  have p1: "r3_Q ! 1 ! 0 < r3_B ! 0 ! 0
      \<and> fl64 (fl64 (r3_B ! 0 ! 1 - r3_B ! 0 ! 0) * tol r3_fitted)
          < fl64 (r3_B ! 0 ! 0 - r3_Q ! 1 ! 0)"
    by (simp add: r3_Q_def r3_B_def r3_fitted_fields r3_fl64 ex_fl64)
  have p2: "r3_Q ! 2 ! 0 = (r3_B ! 0 ! 0 + r3_B ! 0 ! 1) / 2"
    by (simp add: r3_Q_def r3_B_def)
  have p3: "r3_B ! 0 ! nat (n_bins r3_fitted) < r3_Q ! 3 ! 0
      \<and> fl64 (r3_Q ! 3 ! 0 - r3_B ! 0 ! nat (n_bins r3_fitted))
          \<le> fl64 (fl64 (r3_B ! 0 ! nat (n_bins r3_fitted)
                           - r3_B ! 0 ! (nat (n_bins r3_fitted) - 1)) * tol r3_fitted)"
    by (simp add: r3_Q_def r3_B_def r3_fitted_fields r3_fl64)
  have p4: "r3_B ! 0 ! nat (n_bins r3_fitted) < r3_Q ! 4 ! 0
      \<and> fl64 (fl64 (r3_B ! 0 ! nat (n_bins r3_fitted)
                       - r3_B ! 0 ! (nat (n_bins r3_fitted) - 1)) * tol r3_fitted)
          < fl64 (r3_Q ! 4 ! 0 - r3_B ! 0 ! nat (n_bins r3_fitted))"
    by (simp add: r3_Q_def r3_B_def r3_fitted_fields r3_fl64 ex_fl64)
  have r0: "r3_S ! 0 ! 0 = log 2 (r3_H ! 0 ! 0 + alpha r3_fitted)"
    using t[OF j(1)] p0 by (auto simp only: sum.inject)
  have r1: "r3_S ! 1 ! 0 = log 2 (Min (set (r3_H ! 0)) + alpha r3_fitted)"
    using t[OF j(2)] p1 by (auto simp only: sum.inject)
  have r2: "r3_S ! 2 ! 0 = log 2 (r3_H ! 0 ! 0 + alpha r3_fitted)"
    using t[OF j(3)] p2 by (auto simp only: sum.inject)
  have r3: "r3_S ! 3 ! 0 = log 2 (r3_H ! 0 ! (nat (n_bins r3_fitted) - 1) + alpha r3_fitted)"
    using t[OF j(4)] p3 by (auto simp only: sum.inject)
  have r4: "r3_S ! 4 ! 0 = log 2 (Min (set (r3_H ! 0)) + alpha r3_fitted)"
    using t[OF j(5)] p4 by (auto simp only: sum.inject)
  from r3_fit a r3_query r0 r1 r2 r3 r4 show ?thesis by blast
qed

subsection \<open>C2: values inside the fitted range\<close>

text \<open>
  C2. In a fitted model whose tolerance is not negative, a value between the first and the last edge of a feature lies
  in a bin \<open>b\<close> with \<open>edges[b] < v \<le> edges[b+1]\<close>, or is the first edge and belongs to the
  first bin; its score is the base-2 logarithm of that bin's density plus \<open>alpha\<close>, for
  every bin that contains it in this sense.
\<close>

theorem in_range_scores:
  assumes "fit pds m0 X = (None, m)" "hist m = Some H" "bin_edges m = Some B"
    and "check_array Q = Inr Q" "shape1 Q = shape1 X" "j < length Q" "i < shape1 Q"
    and "B ! i ! 0 \<le> Q ! j ! i" "Q ! j ! i \<le> B ! i ! nat (n_bins m)"
    and "0 \<le> tol m"
  shows "\<exists>S. calculate_outlier_scores m Q = Inr S \<and>
    (\<exists>b<nat (n_bins m). (B ! i ! b < Q ! j ! i \<and> Q ! j ! i \<le> B ! i ! Suc b)
                          \<or> (b = 0 \<and> Q ! j ! i = B ! i ! 0)) \<and>
    (\<forall>b<nat (n_bins m). (B ! i ! b < Q ! j ! i \<and> Q ! j ! i \<le> B ! i ! Suc b)
                          \<or> (b = 0 \<and> Q ! j ! i = B ! i ! 0)
       \<longrightarrow> S ! j ! i = log 2 (H ! i ! b + alpha m))"
proof -
  let ?e = "B ! i" and ?d = "H ! i" and ?v = "Q ! j ! i" and ?n = "nat (n_bins m)"
  have iX: "i < shape1 X" using assms(5,7) by simp
  from fitted_entry[OF assms(1-3), of Q] assms(5,6,7)
  obtain S where S: "calculate_outlier_scores m Q = Inr S"
    "S ! j ! i = value_score m ?e ?d ?v" by auto
  note ff = fitted_feature_of_fit(1)[OF assms(1-3) iX]
  have shape: "1 \<le> n_bins m" "length ?d = ?n" "length ?e = Suc ?n" "sorted_wrt (<) ?e"
    using ff by (simp_all add: fitted_feature_def)
  have w0: "?e ! 0 < ?e ! 1" using shape by (simp add: sorted_wrt_iff_nth_less)
  have ex: "\<exists>b<?n. (?e ! b < ?v \<and> ?v \<le> ?e ! Suc b) \<or> (b = 0 \<and> ?v = ?e ! 0)"
  proof -
    from value_position[of ?v "\<lambda>k. ?e ! k" ?n] assms(9)
    consider "?v \<le> ?e ! 0" | b where "b < ?n" "?e ! b < ?v" "?v \<le> ?e ! Suc b" by fastforce
    then show ?thesis
    proof cases
      case 1
      then have "?v = ?e ! 0" using assms(8) by simp
      then show ?thesis using shape(1) by (intro exI[of _ 0]) simp
    next
      case 2
      then show ?thesis by blast
    qed
  qed
  have sc: "S ! j ! i = log 2 (?d ! b + alpha m)"
    if "b < ?n" "(?e ! b < ?v \<and> ?v \<le> ?e ! Suc b) \<or> (b = 0 \<and> ?v = ?e ! 0)" for b
    using that(2)
  proof
    assume "?e ! b < ?v \<and> ?v \<le> ?e ! Suc b"
    then show ?thesis using value_score_inside[OF ff that(1), of ?v] by (simp add: S(2))
  next
    assume first: "b = 0 \<and> ?v = ?e ! 0"
    have "0 \<le> fl64 (fl64 (?e ! 1 - ?e ! 0) * tol m)"
      using w0 assms(10) by (intro fl64_nonneg mult_nonneg_nonneg) simp_all
    then show ?thesis using value_score_below[OF ff, of ?v] first
      by (simp add: S(2) fl64_zero)
  qed
  from S(1) ex sc show ?thesis by blast
qed

theorem in_range_scores_witness:
  "fit (\<lambda>s. False) ex_model ex_X = (None, ex_fitted)
   \<and> 0 \<le> tol ex_fitted
   \<and> calculate_outlier_scores ex_fitted ex_Q = Inr ex_S
   \<and> ex_S ! 5 ! 0 = log 2 (ex_H ! 0 ! 1 + alpha ex_fitted)
   \<and> ex_S ! 6 ! 0 = log 2 (ex_H ! 0 ! 0 + alpha ex_fitted)
   \<and> ex_S ! 7 ! 0 = log 2 (ex_H ! 0 ! 0 + alpha ex_fitted)"
proof -
  have a: "0 \<le> tol ex_fitted" by (simp add: ex_fitted_fields)
  have i: "0 < shape1 ex_Q" by (simp add: ex_Q_column)
  note t = in_range_scores[OF ex_fit ex_fitted_fields(1,2) ex_query(1,2) _ i _ _ a,
      unfolded ex_query(4)]
  have q5: "5 < length ex_Q" "ex_B ! 0 ! 0 \<le> ex_Q ! 5 ! 0"
    "ex_Q ! 5 ! 0 \<le> ex_B ! 0 ! nat (n_bins ex_fitted)"
    by (simp_all add: ex_Q_def ex_B_def ex_fitted_fields)
  have p5: "1 < nat (n_bins ex_fitted)
      \<and> ex_B ! 0 ! 1 < ex_Q ! 5 ! 0 \<and> ex_Q ! 5 ! 0 \<le> ex_B ! 0 ! Suc 1"
    by (simp add: ex_Q_def ex_B_def ex_fitted_fields)
  have q6: "6 < length ex_Q" "ex_B ! 0 ! 0 \<le> ex_Q ! 6 ! 0"
    "ex_Q ! 6 ! 0 \<le> ex_B ! 0 ! nat (n_bins ex_fitted)"
    by (simp_all add: ex_Q_def ex_B_def ex_fitted_fields)
  have p6: "0 < nat (n_bins ex_fitted)
      \<and> ex_B ! 0 ! 0 < ex_Q ! 6 ! 0 \<and> ex_Q ! 6 ! 0 \<le> ex_B ! 0 ! Suc 0"
    by (simp add: ex_Q_def ex_B_def ex_fitted_fields)
  have q7: "7 < length ex_Q" "ex_B ! 0 ! 0 \<le> ex_Q ! 7 ! 0"
    "ex_Q ! 7 ! 0 \<le> ex_B ! 0 ! nat (n_bins ex_fitted)"
    by (simp_all add: ex_Q_def ex_B_def ex_fitted_fields)
  have p7: "0 < nat (n_bins ex_fitted) \<and> ex_Q ! 7 ! 0 = ex_B ! 0 ! 0"
    by (simp add: ex_Q_def ex_B_def ex_fitted_fields)
  have r5: "ex_S ! 5 ! 0 = log 2 (ex_H ! 0 ! 1 + alpha ex_fitted)"
    using t[OF q5] p5 by (auto simp only: sum.inject)
  have r6: "ex_S ! 6 ! 0 = log 2 (ex_H ! 0 ! 0 + alpha ex_fitted)"
    using t[OF q6] p6 by (auto simp only: sum.inject)
  have r7: "ex_S ! 7 ! 0 = log 2 (ex_H ! 0 ! 0 + alpha ex_fitted)"
    using t[OF q7] p7 by (auto simp only: sum.inject)
  from ex_fit a ex_query(4) r5 r6 r7 show ?thesis by blast
qed


subsection \<open>C9: the order of scores and the order of densities\<close>




subsection \<open>C10: the range of the scores\<close>





subsection \<open>C5: the checks of the constructor\<close>

text \<open>
  C5, as stated, fails for the number of bins: the constructor checks \<open>alpha\<close> and \<open>tol\<close>
  only, so it accepts \<open>n_bins = 0\<close> and \<open>n_bins = -5\<close>; with no bins the error comes from
  the histogram, when the model is fitted.
\<close>

theorem constructor_accepts_bad_n_bins_counterexample:
  "HBOS_init (\<lambda>c. False) 0 (1 / 2) (1 / 2) (1 / 10) = Inr zero_model
   \<and> HBOS_init (\<lambda>c. False) (- 5) (1 / 2) (1 / 2) (1 / 10) = Inr (zero_model\<lparr>n_bins := - 5\<rparr>)
   \<and> fit (\<lambda>s. False) zero_model [[1]] = (Some ValueError, zero_failed)"
  by (simp add: HBOS_init_def check_parameter_def zero_model_def zero_failed_def fit_def
      check_array_def shape1_def np_zeros_def np_histogram_def)

text \<open>
  C5, amended. When the constructor of the base class accepts the contamination, the
  constructor raises a configuration error exactly when \<open>alpha\<close> or \<open>tol\<close> is outside the
  open interval (0, 1), and otherwise returns an unfitted model with the parameters as
  given, whatever the number of bins is.
\<close>

theorem constructor_checks:
  assumes "\<not> base_init c"
  shows "HBOS_init base_init nb a t c =
     (if 0 < a \<and> a < 1 \<and> 0 < t \<and> t < 1
      then Inr \<lparr>n_bins = nb, alpha = a, tol = t, contamination = c,
                hist = None, bin_edges = None, decision_scores = None\<rparr>
      else Inl ValueError)"
  using assms by (simp add: HBOS_init_def check_parameter_def)

theorem constructor_checks_witness:
  "HBOS_init (\<lambda>c. False) 3 (1 / 2) (1 / 2) (1 / 10) = Inr ex_model
   \<and> HBOS_init (\<lambda>c. False) 3 1 (1 / 2) (1 / 10) = Inl ValueError
   \<and> HBOS_init (\<lambda>c. False) 3 (1 / 2) 0 (1 / 10) = Inl ValueError"
  using constructor_checks[of "\<lambda>c. False" "1 / 10" 3 "1 / 2" "1 / 2"]
    constructor_checks[of "\<lambda>c. False" "1 / 10" 3 1 "1 / 2"]
    constructor_checks[of "\<lambda>c. False" "1 / 10" 3 "1 / 2" 0]
  by (simp add: ex_model_def)

subsection \<open>C8: scoring with an unfitted model\<close>

text \<open>
  C8, as stated, fails for a fit that did not complete: \<open>fit\<close> allocates \<open>hist_\<close> and
  \<open>bin_edges_\<close> before it builds the histograms, and \<open>check_is_fitted\<close> asks only whether
  the two attributes exist. A model built with \<open>n_bins = 0\<close> fails to fit on the matrix
  \<open>[[1]]\<close> and afterwards raises an index error, not a "not fitted" error, on a query.
\<close>

theorem failed_fit_passes_fitted_check_counterexample:
  "HBOS_init (\<lambda>c. False) 0 (1 / 2) (1 / 2) (1 / 10) = Inr zero_model
   \<and> fit (\<lambda>s. False) zero_model [[1]] = (Some ValueError, zero_failed)
   \<and> decision_function zero_failed [[1]] = Inl IndexError
   \<and> decision_function zero_failed [[1]] \<noteq> Inl NotFittedError"
proof -
  have "score_feature zero_failed [[1]] 0 = Inl IndexError"
    by (simp add: score_feature_def zero_failed_def zero_model_def get_col_def column_def
        np_digitize_def searchsorted_left_def sample_score_def py_index_def)
  then have "decision_function zero_failed [[1]] = Inl IndexError"
    by (simp add: decision_function_def check_array_def shape1_def
        calculate_outlier_scores_def upt_small)
       (simp add: zero_failed_def)
  then show ?thesis
    by (simp add: HBOS_init_def check_parameter_def zero_model_def zero_failed_def fit_def
        check_array_def shape1_def np_zeros_def np_histogram_def)
qed

text \<open>
  C8, amended. A model on which \<open>fit\<close> was never called, or was called and failed
  before it assigned any attribute (in the validation of the matrix, or in the
  allocation of the arrays for a negative number of bins), raises the "not fitted" error
  on every query, before any score is computed.
\<close>

theorem unfitted_raises_not_fitted:
  assumes "HBOS_init base_init nb a t c = Inr m"
  shows "decision_function m Q = Inl NotFittedError \<and>
    (check_array X \<noteq> Inr X \<or> n_bins m < 0
       \<longrightarrow> fst (fit pds m X) \<noteq> None
           \<and> decision_function (snd (fit pds m X)) Q = Inl NotFittedError)"
proof -
  have un: "hist m = None" "bin_edges m = None"
    using assms by (auto simp: HBOS_init_def split: if_splits option.splits)
  then have nf: "decision_function m Q = Inl NotFittedError"
    by (simp add: decision_function_def)
  have "fit pds m X = (Some ValueError, m)" if "check_array X \<noteq> Inr X \<or> n_bins m < 0"
  proof (cases "check_array X")
    case (Inl e)
    then have "e = ValueError" by (simp add: check_array_def split: if_splits)
    then show ?thesis using Inl by (simp add: fit_def)
  next
    case (Inr Y)
    then have "Y = X" by (rule check_array_rows(1))
    then have "n_bins m < 0" using that Inr by simp
    then show ?thesis using Inr by (simp add: fit_def np_zeros_def)
  qed
  then show ?thesis using nf by simp
qed

theorem unfitted_raises_not_fitted_witness:
  "HBOS_init (\<lambda>c. False) 3 (1 / 2) (1 / 2) (1 / 10) = Inr ex_model
   \<and> decision_function ex_model ex_Q = Inl NotFittedError
   \<and> fst (fit (\<lambda>s. False) ex_model []) \<noteq> None
   \<and> decision_function (snd (fit (\<lambda>s. False) ex_model [])) ex_Q = Inl NotFittedError"
proof -
  have i: "HBOS_init (\<lambda>c. False) 3 (1 / 2) (1 / 2) (1 / 10) = Inr ex_model"
    by (simp add: HBOS_init_def check_parameter_def ex_model_def)
  have p: "check_array [] \<noteq> Inr [] \<or> n_bins ex_model < 0" by (simp add: check_array_def)
  from i p unfitted_raises_not_fitted[OF i, of ex_Q "[]" "\<lambda>s. False"] show ?thesis by blast
qed

subsection \<open>The example with two features, evaluated\<close>

lemma two_X_facts:
  "check_array two_X = Inr two_X" "shape1 two_X = 2" "length two_X = 2"
  "column two_X 0 = [0, 2 / 3]" "column two_X (Suc 0) = [0, 2]"
  by (simp_all add: check_array_def two_X_def shape1_def column_def)

lemma replicate_two: "replicate 2 x = [x, x]"
  by (simp add: numeral_2_eq_2)

lemma two_hist:
  "np_histogram [0, 2 / 3] 1 = Inr ([3 / 2], [0, 2 / 3])"
  "np_histogram [0, 2] 1 = Inr ([1 / 2], [0, 2])"
  by (simp_all add: np_histogram_def get_outer_edges_def linspace_def bin_count_def in_bin_def
      np_diff_def Let_def upt_small)

lemma two_fit_loop:
  "fit_loop 1 two_X [h0, h1] [b0, b1] [0, Suc 0]
     = (None, [[3 / 2], [1 / 2]], [[0, 2 / 3], [0, 2]])"
  by (simp add: two_X_facts two_hist np_isclose_def np_diff_def upt_small Let_def)

lemma two_score_feature:
  assumes "hist m = Some [[3 / 2], [1 / 2]]" "bin_edges m = Some [[0, 2 / 3], [0, 2]]"
    "n_bins m = 1" "alpha m = 1 / 2" "tol m = 1 / 2"
  shows "score_feature m two_X 0 = Inr [1, 1]" "score_feature m two_X (Suc 0) = Inr [0, 0]"
    "score_feature m [[1 / 3]] 0 = Inr [1]"
proof -
  have l: "log 2 (3 / 2 + 1 / 2) = 1" "log 2 (1 / 2 + 1 / 2) = 0" by simp_all
  show "score_feature m two_X 0 = Inr [1, 1]"
    by (simp add: score_feature_def assms get_col_def np_digitize_def two_X_facts l
        searchsorted_left_def sample_score_def py_index_def np_min_def)
  show "score_feature m two_X (Suc 0) = Inr [0, 0]"
    by (simp add: score_feature_def assms get_col_def np_digitize_def two_X_facts l
        searchsorted_left_def sample_score_def py_index_def np_min_def)
  have "column [[1 / 3]] 0 = [1 / 3 :: real]" by (simp add: column_def)
  then show "score_feature m [[1 / 3]] 0 = Inr [1]"
    by (simp add: score_feature_def assms get_col_def np_digitize_def l
        searchsorted_left_def sample_score_def py_index_def np_min_def)
qed

lemma two_fit: "fit (\<lambda>s. False) two_model two_X = (None, two_fitted)"
proof -
  let ?m = "two_model\<lparr>hist := Some [[3 / 2], [1 / 2]], bin_edges := Some [[0, 2 / 3], [0, 2]]\<rparr>"
  have "score_feature ?m two_X 0 = Inr [1, 1]" "score_feature ?m two_X (Suc 0) = Inr [0, 0]"
    by (rule two_score_feature; simp add: two_model_def)+
  then have "calculate_outlier_scores ?m two_X = Inr [[1, 0], [1, 0]]"
    by (simp add: calculate_outlier_scores_def two_X_facts upt_small)
  moreover have "n_bins two_model = 1" by (simp add: two_model_def)
  ultimately show ?thesis
    by (simp add: fit_def two_X_facts np_zeros_def two_fit_loop two_fitted_def upt_small
        replicate_two del: fit_loop.simps)
qed

lemma two_fitted_fields:
  "hist two_fitted = Some [[3 / 2], [1 / 2]]" "bin_edges two_fitted = Some [[0, 2 / 3], [0, 2]]"
  "n_bins two_fitted = 1" "alpha two_fitted = 1 / 2" "tol two_fitted = 1 / 2"
  by (simp_all add: two_fitted_def two_model_def)

lemma two_decision: "decision_function two_fitted [[1 / 3]] = Inr [- 1]"
proof -
  have "score_feature two_fitted [[1 / 3]] 0 = Inr [1]"
    by (rule two_score_feature(3)[OF two_fitted_fields])
  then have "calculate_outlier_scores two_fitted [[1 / 3]] = Inr [[1]]"
    using calculate_single_feature[of "[[1 / 3]]" two_fitted "[1]"] by (simp add: shape1_def)
  then show ?thesis
    by (simp add: decision_function_def two_fitted_fields check_array_def shape1_def)
qed

lemma refit_fails: "fit (\<lambda>s. False) refit_model ex_X = (Some ValueError, refit_failed)"
  by (simp add: fit_def ex_check ex_column np_zeros_def refit_model_def refit_failed_def
      np_histogram_def upt_small)

subsection \<open>C6: the number of features of a query\<close>

text \<open>
  C6, as stated, fails: the feature count of a query is never compared with the fitted
  one. A model fitted on two features scores a query with one feature against the first
  histogram and returns a decision score, without any error.
\<close>

theorem fewer_features_accepted_counterexample:
  "fit (\<lambda>s. False) two_model two_X = (None, two_fitted)
   \<and> check_array [[1 / 3]] = Inr [[1 / 3]]
   \<and> shape1 [[1 / 3]] \<noteq> shape1 two_X
   \<and> decision_function two_fitted [[1 / 3]] = Inr [- 1]"
  by (simp add: two_fit two_decision two_X_facts) (simp add: check_array_def shape1_def)

text \<open>
  C6, amended. For a fitted model and a query matrix that the input validation accepts:
  a query with more features than the model was fitted on raises an index error, at the
  first feature that has no histogram; a query with as many features or fewer raises no
  error, and its decision score for a sample is minus the sum, over the features of the
  query, of the score of the sample's value against the histogram in the same position.
  The result is a function of the query and the fitted state.
\<close>

theorem decision_function_feature_count:
  assumes "fit pds m0 X = (None, m)" "hist m = Some H" "bin_edges m = Some B"
    and "check_array Q = Inr Q"
  shows "decision_function m Q =
     (if shape1 X < shape1 Q then Inl IndexError
      else Inr (map (\<lambda>row. - (\<Sum>i<shape1 Q. value_score m (B ! i) (H ! i) (row ! i))) Q))"
proof -
  have fa: "fitted_arrays m H B (shape1 X)" by (rule fitted_histograms(1)[OF assms(1-3)])
  show ?thesis
  proof (cases "shape1 X < shape1 Q")
    case True
    then show ?thesis using decision_function_overrun[OF fa assms(4)] by simp
  next
    case False
    then have "shape1 Q \<le> shape1 X" by simp
    then show ?thesis using decision_function_fitted[OF fa assms(4)] False by simp
  qed
qed

theorem decision_function_feature_count_witness:
  "fit (\<lambda>s. False) two_model two_X = (None, two_fitted)
   \<and> check_array [[1 / 3, 1, 7]] = Inr [[1 / 3, 1, 7]]
   \<and> decision_function two_fitted [[1 / 3, 1, 7]] = Inl IndexError
   \<and> decision_function two_fitted [[1 / 3, 1]]
       = Inr [- (\<Sum>i<2. value_score two_fitted ([[0, 2 / 3], [0, 2]] ! i)
                          ([[3 / 2], [1 / 2]] ! i) ([1 / 3, 1] ! i))]"
proof -
  have c: "check_array [[1 / 3, 1, 7]] = Inr [[1 / 3, 1, 7]]"
    "check_array [[1 / 3, 1]] = Inr [[1 / 3, 1]]"
    by (simp_all add: check_array_def shape1_def)
  have s: "shape1 [[1 / 3, 1, 7 :: real]] = 3" "shape1 [[1 / 3, 1 :: real]] = 2"
    by (simp_all add: shape1_def)
  show ?thesis
    using decision_function_feature_count[OF two_fit two_fitted_fields(1,2) c(1)]
      decision_function_feature_count[OF two_fit two_fitted_fields(1,2) c(2)]
    by (simp add: two_fit c s two_X_facts)
qed

subsection \<open>C7: the state after a failed operation\<close>

lemma fit_invalid:
  assumes "check_array X \<noteq> Inr X"
  shows "fit pds m X = (Some ValueError, m)"
proof (cases "check_array X")
  case (Inl e)
  then have "e = ValueError" by (simp add: check_array_def split: if_splits)
  then show ?thesis using Inl by (simp add: fit_def)
next
  case (Inr Y)
  then show ?thesis using assms check_array_rows(1)[OF Inr] by simp
qed

lemma fit_negative_bins:
  assumes "check_array X = Inr X" "n_bins m < 0"
  shows "fit pds m X = (Some ValueError, m)"
  using assms by (simp add: fit_def np_zeros_def)

lemma fit_zero_bins:
  assumes "check_array X = Inr X" "n_bins m = 0"
  shows "fit pds m X = (Some ValueError, m\<lparr>hist := Some (replicate (shape1 X) []),
                          bin_edges := Some (replicate (shape1 X) [0])\<rparr>)"
proof -
  have "0 < shape1 X" using check_array_rows(3)[OF assms(1)] .
  then have "[0..<shape1 X] = 0 # [1..<shape1 X]" by (simp add: upt_conv_Cons)
  then have "fit_loop 0 X H B [0..<shape1 X] = (Some ValueError, H, B)" for H B
    using fit_loop_fail[of 0] by simp
  then show ?thesis using assms by (simp add: fit_def np_zeros_def)
qed

text \<open>
  C7, as stated, fails for a failure of the histogram construction: \<open>fit\<close> replaces
  \<open>hist_\<close> and \<open>bin_edges_\<close> by arrays of zeros before it builds the histograms. The
  fitted model of the worked example, given \<open>n_bins = 0\<close> and fitted again on the same
  matrix, raises in \<open>np.histogram\<close> and has lost its histogram and its bin edges.
\<close>

theorem failed_refit_overwrites_counterexample:
  "fit (\<lambda>s. False) ex_model ex_X = (None, ex_fitted)
   \<and> refit_model = ex_fitted\<lparr>n_bins := 0\<rparr>
   \<and> fit (\<lambda>s. False) refit_model ex_X = (Some ValueError, refit_failed)
   \<and> hist refit_failed \<noteq> hist refit_model
   \<and> bin_edges refit_failed \<noteq> bin_edges refit_model"
  by (simp add: ex_fit refit_fails)
     (simp add: refit_model_def refit_failed_def ex_fitted_def)

text \<open>
  C7, amended. When \<open>fit\<close> raises in the validation of the matrix, or in the allocation
  of the arrays for a negative number of bins, it leaves the model as it was. When it
  raises because the number of bins is zero, it leaves \<open>hist_\<close> and \<open>bin_edges_\<close> as the
  newly allocated arrays and nothing else changed. Whenever it raises an error other than
  one of the base class's post-processing, \<open>decision_scores_\<close> is as it was. (The
  function \<open>decision_function\<close> assigns nothing to the model.)
\<close>

theorem failed_fit_state:
  assumes "fit pds m X = (Some e, m')"
  shows "(check_array X \<noteq> Inr X \<or> n_bins m < 0 \<longrightarrow> m' = m) \<and>
    (check_array X = Inr X \<and> n_bins m = 0 \<longrightarrow>
       m' = m\<lparr>hist := Some (replicate (shape1 X) []),
              bin_edges := Some (replicate (shape1 X) [0])\<rparr>) \<and>
    (e \<noteq> BaseError \<longrightarrow> decision_scores m' = decision_scores m)"
proof (cases "check_array X = Inr X")
  case False
  then show ?thesis using assms fit_invalid[OF False, of pds m] by simp
next
  case valid: True
  consider "n_bins m < 0" | "n_bins m = 0" | "1 \<le> n_bins m" by linarith
  then show ?thesis
  proof cases
    case 1
    then show ?thesis using assms fit_negative_bins[OF valid 1, of pds] by simp
  next
    case 2
    then show ?thesis using assms fit_zero_bins[OF valid 2, of pds] valid by auto
  next
    case 3
    from fit_ok[OF valid 3, of pds] assms have "e = BaseError" by (auto split: if_splits)
    then show ?thesis using valid 3 by simp
  qed
qed

theorem failed_fit_state_witness:
  "fit (\<lambda>s. False) refit_model ex_X = (Some ValueError, refit_failed)
   \<and> refit_failed = refit_model\<lparr>hist := Some (replicate (shape1 ex_X) []),
                                 bin_edges := Some (replicate (shape1 ex_X) [0])\<rparr>
   \<and> decision_scores refit_failed = decision_scores refit_model
   \<and> fit (\<lambda>s. False) ex_fitted [] = (Some ValueError, ex_fitted)"
proof -
  have p: "check_array ex_X = Inr ex_X \<and> n_bins refit_model = 0" "ValueError \<noteq> BaseError"
    by (simp_all add: ex_check refit_model_def)
  have q: "fit (\<lambda>s. False) ex_fitted [] = (Some ValueError, ex_fitted)"
    by (simp add: fit_def check_array_def)
  from refit_fails q p failed_fit_state[OF refit_fails] show ?thesis by blast
qed

end
